theory Spec2Isabelle
  imports Complex_Main "HOL-Library.Monad_Syntax"
begin

section \<open>Numbers and vectors\<close>

text \<open>
  The shaders (GLSL \<^verbatim>\<open>float\<close>) and the controller (JavaScript Number) compute in
  floating point. The embedding idealises both to \<^typ>\<open>real\<close>: rounding, overflow and
  signed zeros are not modelled. What floating point leaves undefined (a division by zero,
  \<^verbatim>\<open>normalize\<close> of the zero vector, \<^verbatim>\<open>pow\<close>, \<^verbatim>\<open>clamp\<close> and
  \<^verbatim>\<open>smoothstep\<close> outside their domains, a NaN time value) is the result \<open>None\<close>.
\<close>

datatype vec3 = Vec3 (vx: real) (vy: real) (vz: real)

datatype vec4 = Vec4 (rgb_of: vec3) (alpha_of: real)

definition vadd :: "vec3 \<Rightarrow> vec3 \<Rightarrow> vec3" where
  "vadd u v = Vec3 (vx u + vx v) (vy u + vy v) (vz u + vz v)"

definition vsub :: "vec3 \<Rightarrow> vec3 \<Rightarrow> vec3" where
  "vsub u v = Vec3 (vx u - vx v) (vy u - vy v) (vz u - vz v)"

definition vscale :: "vec3 \<Rightarrow> real \<Rightarrow> vec3" where
  "vscale v k = Vec3 (vx v * k) (vy v * k) (vz v * k)"

definition vneg :: "vec3 \<Rightarrow> vec3" where
  "vneg v = Vec3 (- vx v) (- vy v) (- vz v)"

definition dot :: "vec3 \<Rightarrow> vec3 \<Rightarrow> real" where
  "dot u v = vx u * vx v + vy u * vy v + vz u * vz v"

definition length_vec :: "vec3 \<Rightarrow> real" where
  "length_vec v = sqrt (dot v v)"

subsection \<open>GLSL built-ins\<close>

text \<open>A floating-point division; the quotient by zero is undefined.\<close>

definition fdiv :: "real \<Rightarrow> real \<Rightarrow> real option" where
  "fdiv p q = (if q = 0 then None else Some (p / q))"

definition vdiv :: "vec3 \<Rightarrow> real \<Rightarrow> vec3 option" where
  "vdiv v q = (if q = 0 then None else Some (Vec3 (vx v / q) (vy v / q) (vz v / q)))"

text \<open>\<^verbatim>\<open>normalize(v)\<close> is \<open>v / length(v)\<close>.\<close>

definition normalize_vec :: "vec3 \<Rightarrow> vec3 option" where
  "normalize_vec v = vdiv v (length_vec v)"

text \<open>\<^verbatim>\<open>clamp(x, lo, hi)\<close> is \<open>min (max x lo) hi\<close>, undefined when \<open>hi < lo\<close>.\<close>

definition clamp :: "real \<Rightarrow> real \<Rightarrow> real \<Rightarrow> real option" where
  "clamp x lo hi = (if hi < lo then None else Some (min (max x lo) hi))"

text \<open>\<^verbatim>\<open>smoothstep(e0, e1, x)\<close>: Hermite interpolation, undefined when \<open>e1 \<le> e0\<close>.\<close>

definition smoothstep :: "real \<Rightarrow> real \<Rightarrow> real \<Rightarrow> real option" where
  "smoothstep e0 e1 x =
     (if e1 \<le> e0 then None
      else do {
        t \<leftarrow> clamp ((x - e0) / (e1 - e0)) 0 1;
        Some (t * t * (3 - 2 * t))
      })"

text \<open>\<^verbatim>\<open>pow(x, y)\<close> is undefined for \<open>x < 0\<close>, and for \<open>x = 0\<close> with \<open>y \<le> 0\<close>.\<close>

definition pow :: "real \<Rightarrow> real \<Rightarrow> real option" where
  "pow x y = (if x < 0 \<or> (x = 0 \<and> y \<le> 0) then None else Some (x powr y))"

text \<open>\<^verbatim>\<open>mix(x, y, a)\<close> is \<open>x * (1 - a) + y * a\<close>, on vectors componentwise.\<close>

definition mix :: "real \<Rightarrow> real \<Rightarrow> real \<Rightarrow> real" where
  "mix p q t = p * (1 - t) + q * t"

definition mix_vec :: "vec3 \<Rightarrow> vec3 \<Rightarrow> real \<Rightarrow> vec3" where
  "mix_vec u v t = vadd (vscale u (1 - t)) (vscale v t)"

section \<open>Surface shader: ray-sphere entry\<close>

text \<open>
  \<^verbatim>\<open>raySphereEntryT\<close> of the earth fragment shader: the entry distance along the ray
  \<open>ro + t * rd\<close> into the sphere of radius \<open>r\<close> centred at the origin. The square root
  is only taken of a positive \<open>h\<close>.
\<close>

definition raySphereEntryT :: "vec3 \<Rightarrow> vec3 \<Rightarrow> real \<Rightarrow> real" where
  "raySphereEntryT ro rd r =
     (let b = dot ro rd;
          c = dot ro ro - r * r;
          h = b * b - c
      in if h \<le> 0 then 0
         else let t = - b - sqrt h in max t 0)"

section \<open>Surface shader (\<^verbatim>\<open>createEarthMaterial\<close>, fragment stage)\<close>

text \<open>
  The uniforms both fragment shaders declare, with \<^verbatim>\<open>cameraPosition\<close>, which three.js
  supplies to every shader.
\<close>

record uniforms_common =
  sunDirection :: vec3
  atmosphereDayColor :: vec3
  atmosphereTwilightColor :: vec3
  atmosphereScale :: real
  cameraPosition :: vec3

record earth_uniforms = uniforms_common +
  useImagery :: real
  roughnessLow :: real
  roughnessHigh :: real
  hazeStrength :: real
  hazeFalloff :: real
  hazeMax :: real

text \<open>The interpolated inputs of one fragment, and whether it is front facing.\<close>

record varyings =
  vWorldNormal :: vec3
  vWorldPosition :: vec3
  gl_FrontFacing :: bool

text \<open>
  The four texture samples at \<^verbatim>\<open>vUv\<close> are inputs of the fragment, under the names of
  the locals that receive them; \<open>brc\<close> is the bump/roughness/clouds sample.
\<close>

record earth_fragment = varyings +
  dayColor :: vec3
  nightColor :: vec3
  brc :: vec4
  imageryColor :: vec3

text \<open>\<^verbatim>\<open>vec3 N = normalize(vWorldNormal); if (!gl_FrontFacing) N *= -1.0;\<close>\<close>

definition frag_N :: "'a varyings_scheme \<Rightarrow> vec3 option" where
  "frag_N f = do {
     n \<leftarrow> normalize_vec (vWorldNormal f);
     Some (if \<not> gl_FrontFacing f then vscale n (- 1) else n)
   }"

text \<open>\<^verbatim>\<open>sunOrientation = dot(N, normalize(sunDirection))\<close>, in both shaders.\<close>

definition frag_sunOrientation ::
  "'a uniforms_common_scheme \<Rightarrow> 'b varyings_scheme \<Rightarrow> real option" where
  "frag_sunOrientation u f = do {
     N \<leftarrow> frag_N f;
     sunDir \<leftarrow> normalize_vec (sunDirection u);
     Some (dot N sunDir)
   }"

text \<open>\<^verbatim>\<open>atmosphereColor\<close>, in both shaders.\<close>

definition frag_atmosphereColor ::
  "'a uniforms_common_scheme \<Rightarrow> 'b varyings_scheme \<Rightarrow> vec3 option" where
  "frag_atmosphereColor u f = do {
     sunOrientation \<leftarrow> frag_sunOrientation u f;
     atmosphereMix \<leftarrow> smoothstep (- 0.25) 0.75 sunOrientation;
     Some (mix_vec (atmosphereTwilightColor u) (atmosphereDayColor u) atmosphereMix)
   }"

definition earth_dayStrength :: "earth_uniforms \<Rightarrow> earth_fragment \<Rightarrow> real option" where
  "earth_dayStrength u f = do {
     sunOrientation \<leftarrow> frag_sunOrientation u f;
     smoothstep (- 0.25) 0.5 sunOrientation
   }"

text \<open>
  The length of the camera-to-surface ray inside the atmosphere sphere
  (\<^verbatim>\<open>pathLen\<close>). It reads \<^verbatim>\<open>atmosphereScale\<close> and no haze uniform.
\<close>

definition earth_pathLen :: "earth_uniforms \<Rightarrow> earth_fragment \<Rightarrow> real option" where
  "earth_pathLen u f = do {
     let C = cameraPosition u;
     let toP = vsub (vWorldPosition f) C;
     let tSurface = length_vec toP;
     rd \<leftarrow> vdiv toP (max tSurface (1 / 10 ^ 6));
     let planetR = length_vec (vWorldPosition f);
     let atmR = planetR * atmosphereScale u;
     let tEntry = raySphereEntryT C rd atmR;
     Some (max 0 (tSurface - tEntry))
   }"

text \<open>The final value of \<^verbatim>\<open>haze\<close>.\<close>

definition earth_haze :: "earth_uniforms \<Rightarrow> earth_fragment \<Rightarrow> real option" where
  "earth_haze u f = do {
     sunOrientation \<leftarrow> frag_sunOrientation u f;
     pathLen \<leftarrow> earth_pathLen u f;
     q \<leftarrow> fdiv (- pathLen) (max (hazeFalloff u) 1);
     let haze = 1 - exp q;
     k \<leftarrow> smoothstep (- 0.15) 0.25 sunOrientation;
     let sunFactor = 0.25 + 0.75 * k;
     let haze = haze * sunFactor;
     clamp (haze * hazeStrength u) 0 (hazeMax u)
   }"

text \<open>\<^verbatim>\<open>main\<close> of the surface fragment shader; the result is \<^verbatim>\<open>gl_FragColor\<close>.\<close>

definition earth_main :: "earth_uniforms \<Rightarrow> earth_fragment \<Rightarrow> vec4 option" where
  "earth_main u f = do {
     let clouds = vz (rgb_of (brc f));
     cloudsStrength \<leftarrow> smoothstep 0.2 1 clouds;
     let actualDayColor = mix_vec (dayColor f) (imageryColor f) (useImagery u);
     let baseColor = mix_vec actualDayColor (Vec3 1 1 1) (cloudsStrength * 2);
     N \<leftarrow> frag_N f;
     dayStrength \<leftarrow> earth_dayStrength u f;
     atmosphereColor \<leftarrow> frag_atmosphereColor u f;
     let finalColor = mix_vec (nightColor f) baseColor dayStrength;
     haze \<leftarrow> earth_haze u f;
     let finalColor = mix_vec finalColor atmosphereColor haze;
     viewDir \<leftarrow> normalize_vec (vsub (cameraPosition u) (vWorldPosition f));
     mu \<leftarrow> clamp (dot N viewDir) 0 1;
     horizon \<leftarrow> pow (1 - mu) 2;
     let finalColor = vadd finalColor (vscale atmosphereColor (0.08 * horizon * haze));
     Some (Vec4 finalColor 1)
   }"

section \<open>Atmosphere shell shader (\<^verbatim>\<open>createAtmosphereMaterial\<close>, fragment stage)\<close>

record atmosphere_uniforms = uniforms_common +
  haloStrength :: real
  haloPower :: real
  heightFade :: real

text \<open>\<^verbatim>\<open>viewDir = normalize(C - vWorldPosition)\<close>\<close>

definition atmosphere_viewDir :: "atmosphere_uniforms \<Rightarrow> varyings \<Rightarrow> vec3 option" where
  "atmosphere_viewDir u f = normalize_vec (vsub (cameraPosition u) (vWorldPosition f))"

text \<open>The Fresnel ring.\<close>

definition atmosphere_ring :: "atmosphere_uniforms \<Rightarrow> varyings \<Rightarrow> real option" where
  "atmosphere_ring u f = do {
     N \<leftarrow> frag_N f;
     viewDir \<leftarrow> atmosphere_viewDir u f;
     let fresnel = 1 - \<bar>dot viewDir N\<bar>;
     c \<leftarrow> clamp fresnel 0 1;
     pow c (haloPower u)
   }"

text \<open>The fade with the camera's altitude.\<close>

definition atmosphere_density :: "atmosphere_uniforms \<Rightarrow> varyings \<Rightarrow> real option" where
  "atmosphere_density u f = do {
     let topR = length_vec (vWorldPosition f);
     planetR \<leftarrow> fdiv topR (max (atmosphereScale u) (1 / 10 ^ 6));
     let height = max 0 (length_vec (cameraPosition u) - planetR);
     q \<leftarrow> fdiv (- height) (max (heightFade u) 1);
     let altFactor = exp q;
     c \<leftarrow> clamp altFactor 0 1;
     Some (mix 0.18 1 c)
   }"

text \<open>The forward-scattering hot spot.\<close>

definition atmosphere_sunSpot :: "atmosphere_uniforms \<Rightarrow> varyings \<Rightarrow> real option" where
  "atmosphere_sunSpot u f = do {
     viewDir \<leftarrow> atmosphere_viewDir u f;
     sunDir \<leftarrow> normalize_vec (sunDirection u);
     pow (max (dot (vneg viewDir) sunDir) 0) 10
   }"

text \<open>The final value of \<^verbatim>\<open>alpha\<close>.\<close>

definition atmosphere_alpha :: "atmosphere_uniforms \<Rightarrow> varyings \<Rightarrow> real option" where
  "atmosphere_alpha u f = do {
     sunOrientation \<leftarrow> frag_sunOrientation u f;
     ring \<leftarrow> atmosphere_ring u f;
     density \<leftarrow> atmosphere_density u f;
     sunSpot \<leftarrow> atmosphere_sunSpot u f;
     let alpha = haloStrength u * density * ring;
     let alpha = alpha + 0.35 * sunSpot * ring;
     k \<leftarrow> smoothstep (- 0.2) 0.25 sunOrientation;
     let alpha = alpha * (0.25 + 0.75 * k);
     clamp alpha 0 1
   }"

text \<open>\<^verbatim>\<open>main\<close> of the atmosphere fragment shader; the result is \<^verbatim>\<open>gl_FragColor\<close>.\<close>

definition atmosphere_main :: "atmosphere_uniforms \<Rightarrow> varyings \<Rightarrow> vec4 option" where
  "atmosphere_main u f = do {
     atmosphereColor \<leftarrow> frag_atmosphereColor u f;
     alpha \<leftarrow> atmosphere_alpha u f;
     Some (Vec4 atmosphereColor alpha)
   }"

section \<open>Example inputs\<close>

text \<open>
  A fragment at the sub-solar point of a planet of radius 6371 km, seen from a camera
  100 km above it, with the option defaults of \<^verbatim>\<open>createEarthMaterial\<close>.
\<close>

definition earth_uniforms_example :: earth_uniforms where
  "earth_uniforms_example =
     \<lparr>sunDirection = Vec3 0 0 1,
      atmosphereDayColor = Vec3 (77 / 255) (178 / 255) 1,
      atmosphereTwilightColor = Vec3 (188 / 255) (73 / 255) (11 / 255),
      atmosphereScale = 1.04,
      cameraPosition = Vec3 0 0 6471000,
      useImagery = 0, roughnessLow = 0.25, roughnessHigh = 0.35,
      hazeStrength = 0.85, hazeFalloff = 900000, hazeMax = 0.85\<rparr>"

definition earth_fragment_example :: earth_fragment where
  "earth_fragment_example =
     \<lparr>vWorldNormal = Vec3 0 0 1, vWorldPosition = Vec3 0 0 6371000, gl_FrontFacing = True,
      dayColor = Vec3 0.2 0.4 0.6, nightColor = Vec3 0 0 0,
      brc = Vec4 (Vec3 0 0 0) 1, imageryColor = Vec3 0 0 0\<rparr>"

text \<open>
  A fragment of the shell on the limb, seen from a camera above the shell
  (camera, fragment and planet centre form a right angle at the fragment), and a fragment
  straight above a camera on the ground; the uniforms are those
  \<^verbatim>\<open>createAtmosphereMaterial\<close> sets, with the sun along +y.
\<close>

definition atmosphere_uniforms_example :: atmosphere_uniforms where
  "atmosphere_uniforms_example =
     \<lparr>sunDirection = Vec3 0 1 0,
      atmosphereDayColor = Vec3 (77 / 255) (178 / 255) 1,
      atmosphereTwilightColor = Vec3 (188 / 255) (73 / 255) (11 / 255),
      atmosphereScale = 1.04,
      cameraPosition = Vec3 0 0 6502500,
      haloStrength = 1.35, haloPower = 2.2, heightFade = 1400000\<rparr>"

definition atmosphere_fragment_limb :: varyings where
  "atmosphere_fragment_limb =
     \<lparr>vWorldNormal = Vec3 (13 / 85) 0 (84 / 85), vWorldPosition = Vec3 982800 0 6350400,
      gl_FrontFacing = True\<rparr>"

definition atmosphere_fragment_zenith :: varyings where
  "atmosphere_fragment_zenith =
     \<lparr>vWorldNormal = Vec3 0 0 1, vWorldPosition = Vec3 0 0 6625840, gl_FrontFacing = True\<rparr>"

section \<open>The alpha formula as the specification words it\<close>

text \<open>
  The specification has the halo term clamped to \<open>[0, 1]\<close> first and scaled by the
  surface's night factor, with the lower edge -0.15, afterwards. This definition follows
  those words, for comparison with \<open>atmosphere_alpha\<close>.
\<close>

definition spec_atmosphere_alpha :: "atmosphere_uniforms \<Rightarrow> varyings \<Rightarrow> real option" where
  "spec_atmosphere_alpha u f = do {
     sunOrientation \<leftarrow> frag_sunOrientation u f;
     ring \<leftarrow> atmosphere_ring u f;
     density \<leftarrow> atmosphere_density u f;
     sunSpot \<leftarrow> atmosphere_sunSpot u f;
     c \<leftarrow> clamp (haloStrength u * density * ring + 0.35 * sunSpot * ring) 0 1;
     k \<leftarrow> smoothstep (- 0.15) 0.25 sunOrientation;
     Some (c * (0.25 + 0.75 * k))
   }"

section \<open>Dates and three.js vectors\<close>

text \<open>
  A JavaScript \<^verbatim>\<open>Date\<close> holds a time value: a whole number of milliseconds since the
  epoch, or NaN for an Invalid Date, which is \<open>None\<close> here. \<^verbatim>\<open>new Date(v)\<close> with a
  number applies the language's \<^verbatim>\<open>TimeClip\<close>: NaN beyond 8.64e15 ms, and the number
  truncated towards zero otherwise. Dates are values in this model; the sharing of one
  \<^verbatim>\<open>Date\<close> object between the controller and its caller is not modelled.
\<close>

type_synonym Date = "int option"

definition TimeClip :: "real \<Rightarrow> int option" where
  "TimeClip t =
     (if 864 * 10 ^ 13 < \<bar>t\<bar> then None
      else Some (if 0 \<le> t then \<lfloor>t\<rfloor> else \<lceil>t\<rceil>))"

definition getTime :: "Date \<Rightarrow> real option" where
  "getTime d = map_option real_of_int d"

definition new_Date :: "real option \<Rightarrow> Date" where
  "new_Date v = Option.bind v TimeClip"

definition getUTCHours :: "int \<Rightarrow> int" where
  "getUTCHours t = (t div 3600000) mod 24"

definition getUTCMinutes :: "int \<Rightarrow> int" where
  "getUTCMinutes t = (t div 60000) mod 60"

text \<open>
  \<^verbatim>\<open>THREE.Vector3.normalize\<close> divides by \<^verbatim>\<open>length() || 1\<close>, so it leaves the
  zero vector as it is; \<^verbatim>\<open>multiplyScalar\<close> is \<open>vscale\<close>.
\<close>

definition Vector3_normalize :: "vec3 \<Rightarrow> vec3" where
  "Vector3_normalize v = vscale v (1 / (if length_vec v = 0 then 1 else length_vec v))"

text \<open>\<^verbatim>\<open>Math.atan2(y, x)\<close> on the reals (the zeros carry no sign).\<close>

definition atan2 :: "real \<Rightarrow> real \<Rightarrow> real" where
  "atan2 y x =
     (if 0 < x then arctan (y / x)
      else if x < 0 then (if 0 \<le> y then arctan (y / x) + pi else arctan (y / x) - pi)
      else if 0 < y then pi / 2
      else if y < 0 then - (pi / 2)
      else 0)"

section \<open>Sun position calculator (\<^verbatim>\<open>sun-calculator.js\<close>)\<close>

text \<open>
  The functions take the time value of a valid date. \<^verbatim>\<open>Math.asin\<close> is \<open>arcsin\<close>: both
  of its arguments below lie in \<open>[-1, 1]\<close> on the reals.
\<close>

definition RAD :: real where
  "RAD = pi / 180"

definition EARTH_OBLIQUITY :: real where
  "EARTH_OBLIQUITY = 23.4397 * RAD"

definition J1970 :: real where
  "J1970 = 2440588"

definition J2000 :: real where
  "J2000 = 2451545"

definition toJulian :: "int \<Rightarrow> real" where
  "toJulian date = real_of_int date / 86400000 - 0.5 + J1970"

definition toDays :: "int \<Rightarrow> real" where
  "toDays date = toJulian date - J2000"

definition solarMeanAnomaly :: "real \<Rightarrow> real" where
  "solarMeanAnomaly days = (357.5291 + 0.98560028 * days) * RAD"

definition equationOfCenter :: "real \<Rightarrow> real" where
  "equationOfCenter M = (1.9148 * sin M + 0.0200 * sin (2 * M) + 0.0003 * sin (3 * M)) * RAD"

definition eclipticLongitude :: "real \<Rightarrow> real" where
  "eclipticLongitude M =
     (let C = equationOfCenter M;
          P = 102.9372 * RAD
      in M + C + P + pi)"

definition solarDeclination :: "real \<Rightarrow> real" where
  "solarDeclination days =
     (let L = eclipticLongitude (solarMeanAnomaly days)
      in arcsin (sin L * sin EARTH_OBLIQUITY))"

definition rightAscension :: "real \<Rightarrow> real" where
  "rightAscension days =
     (let L = eclipticLongitude (solarMeanAnomaly days)
      in atan2 (sin L * cos EARTH_OBLIQUITY) (cos L))"

definition siderealTime :: "real \<Rightarrow> real \<Rightarrow> real" where
  "siderealTime days lng = (280.16 + 360.9856235 * days) * RAD - lng"

record SunPosition =
  altitude :: real
  azimuth :: real
  declination :: real

definition calculateSunPosition :: "int \<Rightarrow> real \<Rightarrow> real \<Rightarrow> SunPosition" where
  "calculateSunPosition date lat lng =
     (let lngRad = - lng * RAD;
          phi = lat * RAD;
          days = toDays date;
          dec = solarDeclination days;
          ra = rightAscension days;
          lmst = siderealTime days lngRad;
          H = lmst - ra;
          alt = arcsin (sin phi * sin dec + cos phi * cos dec * cos H);
          az = atan2 (sin H) (cos H * sin phi - tan dec * cos phi)
      in \<lparr>altitude = alt, azimuth = az, declination = dec\<rparr>)"

definition getSunDirectionVector :: "int \<Rightarrow> real \<Rightarrow> real \<Rightarrow> vec3" where
  "getSunDirectionVector date lat lng =
     (let pos = calculateSunPosition date lat lng;
          x = cos (altitude pos) * sin (azimuth pos);
          y = sin (altitude pos);
          z = cos (altitude pos) * cos (azimuth pos)
      in Vector3_normalize (Vec3 (- x) y (- z)))"

definition getSimplifiedSunDirection :: "int \<Rightarrow> vec3" where
  "getSimplifiedSunDirection date =
     (let days = toDays date;
          dec = solarDeclination days;
          hours = real_of_int (getUTCHours date) + real_of_int (getUTCMinutes date) / 60;
          hourAngle = (hours / 24) * pi * 2 - pi;
          x = cos dec * sin hourAngle;
          y = sin dec;
          z = cos dec * cos hourAngle
      in Vector3_normalize (Vec3 x y z))"

section \<open>Lighting controller (\<^verbatim>\<open>LightingSystem\<close>)\<close>

text \<open>
  The fields of the controller, with the position and intensity of its directional light
  and the intensity of its ambient light; the scene the lights are added to is left out.
  On an Invalid Date every component of a computed direction is NaN: such a direction,
  and the light position made from it, is \<open>None\<close>.
\<close>

record LightingSystem =
  planetRadius :: real
  sunDistance :: real
  sun_position :: "vec3 option"
  sun_intensity :: real
  currentDate :: Date
  useSimplified :: bool
  latitude :: real
  longitude :: real
  timeSpeed :: real
  lastUpdateTime :: real
  ambient_intensity :: real

text \<open>
  The constructor, given the current time (\<^verbatim>\<open>new Date()\<close>) and the reading of
  \<^verbatim>\<open>performance.now()\<close>.
\<close>

definition LightingSystem_new :: "int \<Rightarrow> real \<Rightarrow> real \<Rightarrow> real \<Rightarrow> LightingSystem" where
  "LightingSystem_new now perf radius distance =
     \<lparr>planetRadius = radius, sunDistance = distance,
      sun_position = Some (Vec3 0 0 distance), sun_intensity = 4,
      currentDate = Some now, useSimplified = True, latitude = 0, longitude = 0,
      timeSpeed = 0, lastUpdateTime = perf, ambient_intensity = 0.15\<rparr>"

text \<open>
  \<^verbatim>\<open>updateSunPosition(date = null)\<close>: the argument is \<open>None\<close> when it is omitted or
  null; a \<^verbatim>\<open>Date\<close> object, valid or not, is truthy.
\<close>

definition updateSunPosition :: "Date option \<Rightarrow> LightingSystem \<Rightarrow> LightingSystem" where
  "updateSunPosition date s =
     (let s1 = (case date of Some d \<Rightarrow> s\<lparr>currentDate := d\<rparr> | None \<Rightarrow> s);
          direction =
            (if useSimplified s1
             then map_option getSimplifiedSunDirection (currentDate s1)
             else map_option (\<lambda>t. getSunDirectionVector t (latitude s1) (longitude s1))
                    (currentDate s1))
      in s1\<lparr>sun_position := map_option (\<lambda>v. vscale v (sunDistance s1)) direction\<rparr>)"

definition setDate :: "Date \<Rightarrow> LightingSystem \<Rightarrow> LightingSystem" where
  "setDate date s = updateSunPosition None (s\<lparr>currentDate := date\<rparr>)"

definition setLocation :: "real \<Rightarrow> real \<Rightarrow> LightingSystem \<Rightarrow> LightingSystem" where
  "setLocation lat lng s =
     updateSunPosition None (s\<lparr>latitude := lat, longitude := lng, useSimplified := False\<rparr>)"

definition setSimplifiedMode :: "bool \<Rightarrow> LightingSystem \<Rightarrow> LightingSystem" where
  "setSimplifiedMode enabled s = updateSunPosition None (s\<lparr>useSimplified := enabled\<rparr>)"

definition setTimeSpeed :: "real \<Rightarrow> LightingSystem \<Rightarrow> LightingSystem" where
  "setTimeSpeed speed s = s\<lparr>timeSpeed := speed\<rparr>"

definition update :: "real \<Rightarrow> LightingSystem \<Rightarrow> LightingSystem" where
  "update deltaTime s =
     (if timeSpeed s \<noteq> 0
      then let millisecondsElapsed = deltaTime * 1000 * timeSpeed s;
               s1 = s\<lparr>currentDate :=
                      new_Date (map_option (\<lambda>t. t + millisecondsElapsed) (getTime (currentDate s)))\<rparr>
           in updateSunPosition None s1
      else s)"

definition setIntensity :: "real \<Rightarrow> LightingSystem \<Rightarrow> LightingSystem" where
  "setIntensity intensity s = s\<lparr>sun_intensity := intensity\<rparr>"

definition setAmbientIntensity :: "real \<Rightarrow> LightingSystem \<Rightarrow> LightingSystem" where
  "setAmbientIntensity intensity s = s\<lparr>ambient_intensity := intensity\<rparr>"

definition getSunDirection :: "LightingSystem \<Rightarrow> vec3 option" where
  "getSunDirection s = map_option Vector3_normalize (sun_position s)"

record TimeInfo =
  info_date :: Date
  info_hours :: "int option"
  info_minutes :: "int option"
  info_timeOfDay :: "real option"

definition getTimeInfo :: "LightingSystem \<Rightarrow> TimeInfo" where
  "getTimeInfo s =
     \<lparr>info_date = currentDate s,
      info_hours = map_option getUTCHours (currentDate s),
      info_minutes = map_option getUTCMinutes (currentDate s),
      info_timeOfDay =
        map_option (\<lambda>t. real_of_int (getUTCHours t) + real_of_int (getUTCMinutes t) / 60)
          (currentDate s)\<rparr>"

text \<open>A controller created at 2024-12-08T00:00:00Z and set to real-time speed.\<close>

definition lighting_example :: LightingSystem where
  "lighting_example =
     setTimeSpeed 1 (LightingSystem_new 1733616000000 0 6371000 149597870700)"

section \<open>Materials and their uniform objects (\<^verbatim>\<open>createEarthMaterial\<close>)\<close>

text \<open>
  A uniform is an object \<^verbatim>\<open>{ value: v }\<close>, and a material's \<^verbatim>\<open>uniforms\<close> maps
  names to such objects. Two materials may hold the same object, so the uniform objects
  live in a store and a \<^verbatim>\<open>uniforms\<close> dictionary holds their addresses. A value is a
  texture handle (or null), a number or a vector; a vector value is changed in place
  (\<^verbatim>\<open>value.copy(...)\<close>) by writing the object's cell.
\<close>

datatype uniform_value = Texture "nat option" | Number real | Vector vec3

type_synonym store = "uniform_value list"

type_synonym uniforms = "(string \<times> nat) list"

text \<open>Creating the object \<^verbatim>\<open>{ value: v }\<close>.\<close>

definition alloc :: "uniform_value \<Rightarrow> store \<Rightarrow> nat \<times> store" where
  "alloc v h = (length h, h @ [v])"

text \<open>Reading \<^verbatim>\<open>uniforms.n.value\<close>; it throws when the name is missing.\<close>

definition get_value :: "uniforms \<Rightarrow> string \<Rightarrow> store \<Rightarrow> uniform_value option" where
  "get_value u n h = do {
     p \<leftarrow> map_of u n;
     if p < length h then Some (h ! p) else None
   }"

text \<open>The assignment \<^verbatim>\<open>uniforms.n.value = v\<close>, or a change of the value in place.\<close>

definition set_value :: "uniforms \<Rightarrow> string \<Rightarrow> uniform_value \<Rightarrow> store \<Rightarrow> store option" where
  "set_value u n v h = do {
     p \<leftarrow> map_of u n;
     if p < length h then Some (h[p := v]) else None
   }"

datatype side = FrontSide | BackSide | DoubleSide

text \<open>
  A shader material: its own \<^verbatim>\<open>uniforms\<close>; the \<^verbatim>\<open>uniforms\<close> dictionary that its
  \<^verbatim>\<open>clone\<close> method closes over (\<open>clone_uniforms\<close>: the clone method of a clone is the
  base material's); whether it carries the \<^verbatim>\<open>onBeforeRender\<close> hook of the factory;
  and its side. The shader sources are the same for a material and its clones.
\<close>

record material =
  uniforms :: uniforms
  clone_uniforms :: uniforms
  hasOnBeforeRender :: bool
  side :: side

record earth_textures =
  day :: "nat option"
  night :: "nat option"
  bumpRoughnessClouds :: "nat option"

text \<open>
  The options after the factory's first lines: the two colours as the
  \<^verbatim>\<open>THREE.Color\<close> objects \<^verbatim>\<open>dayColor\<close> and \<^verbatim>\<open>twilightColor\<close> (given or
  default), and the numeric options, absent (\<open>None\<close>) or given.
\<close>

record earth_options =
  opt_dayColor :: vec3
  opt_twilightColor :: vec3
  opt_roughnessLow :: "real option"
  opt_roughnessHigh :: "real option"
  opt_atmosphereScale :: "real option"
  opt_hazeStrength :: "real option"
  opt_hazeFalloff :: "real option"
  opt_hazeMax :: "real option"

definition default :: "real \<Rightarrow> real option \<Rightarrow> real" where
  "default d v = (case v of None \<Rightarrow> d | Some x \<Rightarrow> x)"

fun alloc_all :: "(string \<times> uniform_value) list \<Rightarrow> store \<Rightarrow> uniforms \<times> store" where
  "alloc_all [] h = ([], h)"
| "alloc_all ((n, v) # nvs) h =
     (let (p, h1) = alloc v h;
          (u, h2) = alloc_all nvs h1
      in ((n, p) # u, h2))"

text \<open>\<^verbatim>\<open>createEarthMaterial(textures, sunLight, options)\<close>; the light is only used by the hook.\<close>

definition createEarthMaterial ::
  "earth_textures \<Rightarrow> earth_options \<Rightarrow> store \<Rightarrow> material \<times> store" where
  "createEarthMaterial textures options h =
     (let (u, h1) = alloc_all
        [(''dayTexture'', Texture (day textures)),
         (''nightTexture'', Texture (night textures)),
         (''bumpRoughnessCloudsTexture'', Texture (bumpRoughnessClouds textures)),
         (''imageryTexture'', Texture None),
         (''useImagery'', Number 0),
         (''sunDirection'', Vector (Vec3 0 0 0)),
         (''atmosphereDayColor'', Vector (opt_dayColor options)),
         (''atmosphereTwilightColor'', Vector (opt_twilightColor options)),
         (''roughnessLow'', Number (default 0.25 (opt_roughnessLow options))),
         (''roughnessHigh'', Number (default 0.35 (opt_roughnessHigh options))),
         (''atmosphereScale'', Number (default 1.04 (opt_atmosphereScale options))),
         (''hazeStrength'', Number (default 0.85 (opt_hazeStrength options))),
         (''hazeFalloff'', Number (default 900000 (opt_hazeFalloff options))),
         (''hazeMax'', Number (default 0.85 (opt_hazeMax options)))] h
      in (\<lparr>uniforms = u, clone_uniforms = u, hasOnBeforeRender = True, side = DoubleSide\<rparr>, h1))"

text \<open>
  \<^verbatim>\<open>material.clone()\<close>: fresh objects for the three textures, the imagery slot and the
  two roughness values; the base's own objects for the sun direction and the two
  atmosphere colours.
\<close>

definition clone :: "material \<Rightarrow> store \<Rightarrow> (material \<times> store) option" where
  "clone this h = do {
     let u = clone_uniforms this;
     dayTexture \<leftarrow> get_value u ''dayTexture'' h;
     nightTexture \<leftarrow> get_value u ''nightTexture'' h;
     bumpRoughnessCloudsTexture \<leftarrow> get_value u ''bumpRoughnessCloudsTexture'' h;
     sunDirection \<leftarrow> map_of u ''sunDirection'';
     atmosphereDayColor \<leftarrow> map_of u ''atmosphereDayColor'';
     atmosphereTwilightColor \<leftarrow> map_of u ''atmosphereTwilightColor'';
     roughnessLow \<leftarrow> get_value u ''roughnessLow'' h;
     roughnessHigh \<leftarrow> get_value u ''roughnessHigh'' h;
     let (u1, h1) = alloc_all
        [(''dayTexture'', dayTexture),
         (''nightTexture'', nightTexture),
         (''bumpRoughnessCloudsTexture'', bumpRoughnessCloudsTexture),
         (''imageryTexture'', Texture None),
         (''useImagery'', Number 0)] h;
     let (u2, h2) = alloc_all
        [(''roughnessLow'', roughnessLow),
         (''roughnessHigh'', roughnessHigh)] h1;
     let clonedUniforms =
        u1 @ [(''sunDirection'', sunDirection),
              (''atmosphereDayColor'', atmosphereDayColor),
              (''atmosphereTwilightColor'', atmosphereTwilightColor)] @ u2;
     Some (\<lparr>uniforms = clonedUniforms, clone_uniforms = u, hasOnBeforeRender = False,
             side = side this\<rparr>, h2)
   }"

text \<open>
  The hook \<^verbatim>\<open>onBeforeRender\<close> of the factory writes the normalised position of the
  sun light into the sun direction of the factory's \<^verbatim>\<open>uniforms\<close>; a clone has no hook.
\<close>

definition onBeforeRender :: "material \<Rightarrow> vec3 \<Rightarrow> store \<Rightarrow> store option" where
  "onBeforeRender m sunLight_position h =
     (if hasOnBeforeRender m
      then set_value (clone_uniforms m) ''sunDirection''
             (Vector (Vector3_normalize sunLight_position)) h
      else Some h)"

text \<open>The accessors of \<^verbatim>\<open>material.map\<close>.\<close>

definition get_map :: "material \<Rightarrow> store \<Rightarrow> uniform_value option" where
  "get_map m h = get_value (uniforms m) ''imageryTexture'' h"

definition set_map :: "material \<Rightarrow> nat option \<Rightarrow> store \<Rightarrow> store option" where
  "set_map m texture h = do {
     h1 \<leftarrow> set_value (uniforms m) ''imageryTexture'' (Texture texture) h;
     set_value (uniforms m) ''useImagery''
       (Number (case texture of Some t \<Rightarrow> 1 | None \<Rightarrow> 0)) h1
   }"

text \<open>A material for three textures with the default options, in an empty store.\<close>

definition material_example :: "material \<times> store" where
  "material_example =
     createEarthMaterial \<lparr>day = Some 1, night = Some 2, bumpRoughnessClouds = Some 3\<rparr>
       \<lparr>opt_dayColor = Vec3 (77 / 255) (178 / 255) 1,
        opt_twilightColor = Vec3 (188 / 255) (73 / 255) (11 / 255),
        opt_roughnessLow = None, opt_roughnessHigh = None, opt_atmosphereScale = None,
        opt_hazeStrength = None, opt_hazeFalloff = None, opt_hazeMax = None\<rparr> []"

text \<open>
  The layout of the store: the values and the addresses a material gets from
  \<open>createEarthMaterial\<close> in a store of length \<open>b\<close>, and the addresses its clone gets in a
  store of length \<open>c\<close> (lemmas \<open>createEarthMaterial_eq\<close> and \<open>clone_eq\<close>).
\<close>

definition base_values :: "earth_textures \<Rightarrow> earth_options \<Rightarrow> uniform_value list" where
  "base_values textures options =
     [Texture (day textures), Texture (night textures), Texture (bumpRoughnessClouds textures),
      Texture None, Number 0, Vector (Vec3 0 0 0),
      Vector (opt_dayColor options), Vector (opt_twilightColor options),
      Number (default 0.25 (opt_roughnessLow options)),
      Number (default 0.35 (opt_roughnessHigh options)),
      Number (default 1.04 (opt_atmosphereScale options)),
      Number (default 0.85 (opt_hazeStrength options)),
      Number (default 900000 (opt_hazeFalloff options)),
      Number (default 0.85 (opt_hazeMax options))]"

definition base_uniforms :: "nat \<Rightarrow> uniforms" where
  "base_uniforms b =
     [(''dayTexture'', b), (''nightTexture'', b + 1), (''bumpRoughnessCloudsTexture'', b + 2),
      (''imageryTexture'', b + 3), (''useImagery'', b + 4), (''sunDirection'', b + 5),
      (''atmosphereDayColor'', b + 6), (''atmosphereTwilightColor'', b + 7),
      (''roughnessLow'', b + 8), (''roughnessHigh'', b + 9), (''atmosphereScale'', b + 10),
      (''hazeStrength'', b + 11), (''hazeFalloff'', b + 12), (''hazeMax'', b + 13)]"

definition clone_layout :: "nat \<Rightarrow> nat \<Rightarrow> uniforms" where
  "clone_layout b c =
     [(''dayTexture'', c), (''nightTexture'', c + 1), (''bumpRoughnessCloudsTexture'', c + 2),
      (''imageryTexture'', c + 3), (''useImagery'', c + 4), (''sunDirection'', b + 5),
      (''atmosphereDayColor'', b + 6), (''atmosphereTwilightColor'', b + 7),
      (''roughnessLow'', c + 5), (''roughnessHigh'', c + 6)]"

section \<open>Properties\<close>

lemma raySphereEntryT_nonneg: "0 \<le> raySphereEntryT ro rd r"
  by (simp add: raySphereEntryT_def Let_def)

lemma dot_self_nonneg: "0 \<le> dot v v"
  by (simp add: dot_def)

lemma raySphereEntryT_inside:
  assumes "length_vec ro < r"
  shows "raySphereEntryT ro rd r = 0"
proof -
  have r0: "0 \<le> length_vec ro"
    by (simp add: length_vec_def dot_self_nonneg)
  have "length_vec ro * length_vec ro < r * r"
    using assms r0 by (intro mult_strict_mono') auto
  moreover have "length_vec ro * length_vec ro = dot ro ro"
    by (simp add: length_vec_def dot_self_nonneg)
  ultimately have c: "dot ro ro - r * r < 0"
    by simp
  define b where "b = dot ro rd"
  define h where "h = b * b - (dot ro ro - r * r)"
  have hb: "b * b < h"
    using c by (simp add: h_def)
  have "\<bar>b\<bar> < sqrt h"
  proof -
    have "sqrt (b * b) < sqrt h"
      using hb by (rule real_sqrt_less_mono)
    then show ?thesis
      by (simp only: real_sqrt_abs2)
  qed
  then have "- b - sqrt h \<le> 0"
    by linarith
  then show ?thesis
    by (simp add: raySphereEntryT_def Let_def b_def h_def max_def)
qed

text \<open>
  C8: the entry distance is never negative, and a ray that starts strictly inside the
  sphere (\<open>|ro| < r\<close>) enters at distance 0. Neither part needs \<open>rd\<close> to be a unit vector.
\<close>

theorem raySphereEntryT_entry:
  "0 \<le> raySphereEntryT ro rd r \<and> (length_vec ro < r \<longrightarrow> raySphereEntryT ro rd r = 0)"
  using raySphereEntryT_nonneg raySphereEntryT_inside by blast

theorem raySphereEntryT_entry_witness:
  "length_vec (Vec3 0 0 0) < 1 \<and> raySphereEntryT (Vec3 0 0 0) (Vec3 1 0 0) 1 = 0
   \<and> 0 \<le> raySphereEntryT (Vec3 0 0 0) (Vec3 1 0 0) 1"
  using raySphereEntryT_entry [of "Vec3 0 0 0" "Vec3 1 0 0" 1]
  by (simp add: length_vec_def dot_def)

subsection \<open>Clamp and smoothstep\<close>

lemma clamp_unit: "clamp x 0 1 = Some (min (max x 0) 1)"
  by (simp add: clamp_def)

lemma hermite_strict_mono:
  fixes s t :: real
  assumes "0 \<le> s" "s < t" "t \<le> 1"
  shows "s * s * (3 - 2 * s) < t * t * (3 - 2 * t)"
proof -
  have "t * t * (3 - 2 * t) - s * s * (3 - 2 * s)
        = (t - s) * (s * (3 - 2 * s - t) + t * (3 - 2 * t - s))"
    by (simp add: algebra_simps)
  moreover have "0 \<le> s * (3 - 2 * s - t)"
    using assms by (intro mult_nonneg_nonneg) auto
  moreover have "0 < t * (3 - 2 * t - s)"
    using assms by (intro mult_pos_pos) auto
  ultimately have "0 < t * t * (3 - 2 * t) - s * s * (3 - 2 * s)"
    using assms by (simp add: add_nonneg_pos)
  then show ?thesis by simp
qed

lemma hermite_mono:
  fixes s t :: real
  assumes "0 \<le> s" "s \<le> t" "t \<le> 1"
  shows "s * s * (3 - 2 * s) \<le> t * t * (3 - 2 * t)"
  using hermite_strict_mono [of s t] assms by (cases "s = t") auto

lemma hermite_range:
  fixes t :: real
  assumes "0 \<le> t" "t \<le> 1"
  shows "0 \<le> t * t * (3 - 2 * t) \<and> t * t * (3 - 2 * t) \<le> 1"
  using hermite_mono [of 0 t] hermite_mono [of t 1] assms by simp

lemma smoothstep_eq:
  "e0 < e1 \<Longrightarrow> smoothstep e0 e1 x =
     Some (let t = min (max ((x - e0) / (e1 - e0)) 0) 1 in t * t * (3 - 2 * t))"
  by (simp add: smoothstep_def clamp_def Let_def)

lemma smoothstep_range:
  assumes "smoothstep e0 e1 x = Some v"
  shows "0 \<le> v \<and> v \<le> 1"
proof -
  have e: "e0 < e1"
    using assms by (simp add: smoothstep_def split: if_splits)
  define t where "t = min (max ((x - e0) / (e1 - e0)) 0) 1"
  have "v = t * t * (3 - 2 * t)"
    using assms smoothstep_eq [OF e, of x] by (simp add: t_def Let_def)
  moreover have "0 \<le> t" "t \<le> 1"
    by (simp_all add: t_def)
  ultimately show ?thesis
    using hermite_range by simp
qed

lemma smoothstep_total: "e0 < e1 \<Longrightarrow> \<exists>k. smoothstep e0 e1 x = Some k \<and> 0 \<le> k \<and> k \<le> 1"
  using smoothstep_range [of e0 e1 x] by (simp add: smoothstep_eq)

lemma smoothstep_low: "e0 < e1 \<Longrightarrow> x \<le> e0 \<Longrightarrow> smoothstep e0 e1 x = Some 0"
  by (simp add: smoothstep_eq Let_def max_def divide_le_0_iff)

lemma smoothstep_high:
  assumes "e0 < e1" "e1 \<le> x"
  shows "smoothstep e0 e1 x = Some 1"
proof -
  have "1 \<le> (x - e0) / (e1 - e0)"
    using assms by simp
  then have "min (max ((x - e0) / (e1 - e0)) 0) 1 = 1"
    by simp
  then show ?thesis
    unfolding smoothstep_eq [OF assms(1)] Let_def by (simp only:) simp
qed

lemma smoothstep_mono:
  assumes "e0 < e1" "x \<le> y"
    and "smoothstep e0 e1 x = Some v" "smoothstep e0 e1 y = Some w"
  shows "v \<le> w"
proof -
  define s where "s = min (max ((x - e0) / (e1 - e0)) 0) 1"
  define t where "t = min (max ((y - e0) / (e1 - e0)) 0) 1"
  have "(x - e0) / (e1 - e0) \<le> (y - e0) / (e1 - e0)"
    using assms(1,2) by (simp add: divide_right_mono)
  then have "0 \<le> s" "s \<le> t" "t \<le> 1"
    by (auto simp: s_def t_def)
  then have "s * s * (3 - 2 * s) \<le> t * t * (3 - 2 * t)"
    by (rule hermite_mono)
  then show ?thesis
    using assms(3,4) smoothstep_eq [OF assms(1)] by (simp add: s_def t_def Let_def)
qed

lemma smoothstep_strict_mono:
  assumes "e0 < e1" "e0 \<le> x" "x < y" "y \<le> e1"
    and "smoothstep e0 e1 x = Some v" "smoothstep e0 e1 y = Some w"
  shows "v < w"
proof -
  define s where "s = (x - e0) / (e1 - e0)"
  define t where "t = (y - e0) / (e1 - e0)"
  have st: "s < t"
    using assms(1,3) by (simp add: s_def t_def divide_strict_right_mono)
  have s0: "0 \<le> s"
    using assms(1,2) by (simp add: s_def)
  have t1: "t \<le> 1"
    using assms(1,4) by (simp add: t_def)
  have "s * s * (3 - 2 * s) < t * t * (3 - 2 * t)"
    using s0 st t1 by (rule hermite_strict_mono)
  moreover have "min (max s 0) 1 = s" "min (max t 0) 1 = t"
    using s0 st t1 by auto
  ultimately show ?thesis
    using assms(5,6) smoothstep_eq [OF assms(1)] by (simp add: s_def t_def Let_def)
qed

subsection \<open>Day/night blend\<close>

lemma length_vec_axis: "length_vec (Vec3 0 0 q) = \<bar>q\<bar>"
  by (simp add: length_vec_def dot_def)

lemma normalize_vec_axis: "q \<noteq> 0 \<Longrightarrow> normalize_vec (Vec3 0 0 q) = Some (Vec3 0 0 (q / \<bar>q\<bar>))"
  by (simp add: normalize_vec_def vdiv_def length_vec_axis)

lemma earth_dayStrength_eq:
  "frag_sunOrientation u f = Some s \<Longrightarrow> earth_dayStrength u f = smoothstep (- 0.25) 0.5 s"
  by (simp add: earth_dayStrength_def)

text \<open>
  C3: the day/night blend factor of a fragment is \<open>smoothstep (-0.25) 0.5\<close> of its sun
  orientation: 0 up to -0.25, 1 from 0.5 on, and strictly increasing in between.
\<close>

theorem earth_dayStrength_blend:
  "(frag_sunOrientation u f = Some s \<longrightarrow>
      earth_dayStrength u f = smoothstep (- 0.25) 0.5 s
      \<and> (s \<le> - 0.25 \<longrightarrow> earth_dayStrength u f = Some 0)
      \<and> (0.5 \<le> s \<longrightarrow> earth_dayStrength u f = Some 1)
      \<and> (\<exists>d. earth_dayStrength u f = Some d \<and> 0 \<le> d \<and> d \<le> 1))
   \<and> (frag_sunOrientation u f = Some s \<and> frag_sunOrientation u' f' = Some s'
        \<and> - 0.25 \<le> s \<and> s < s' \<and> s' \<le> 0.5 \<longrightarrow>
      (\<exists>d d'. earth_dayStrength u f = Some d \<and> earth_dayStrength u' f' = Some d' \<and> d < d'))"
proof (intro conjI impI)
  assume s: "frag_sunOrientation u f = Some s"
  show "earth_dayStrength u f = smoothstep (- 0.25) 0.5 s"
    using s by (rule earth_dayStrength_eq)
  show "earth_dayStrength u f = Some 0" if "s \<le> - 0.25"
    using that smoothstep_low [of "- 0.25" "0.5" s] earth_dayStrength_eq [OF s] by simp
  show "earth_dayStrength u f = Some 1" if "0.5 \<le> s"
    using that smoothstep_high [of "- 0.25" "0.5" s] earth_dayStrength_eq [OF s] by simp
  show "\<exists>d. earth_dayStrength u f = Some d \<and> 0 \<le> d \<and> d \<le> 1"
    using smoothstep_total [of "- 0.25" "0.5" s] earth_dayStrength_eq [OF s] by simp
next
  assume a: "frag_sunOrientation u f = Some s \<and> frag_sunOrientation u' f' = Some s'
        \<and> - 0.25 \<le> s \<and> s < s' \<and> s' \<le> 0.5"
  obtain d where d: "smoothstep (- 0.25) 0.5 s = Some d"
    using smoothstep_total [of "- 0.25" "0.5" s] by auto
  obtain d' where d': "smoothstep (- 0.25) 0.5 s' = Some d'"
    using smoothstep_total [of "- 0.25" "0.5" s'] by auto
  have "d < d'"
    using smoothstep_strict_mono [OF _ _ _ _ d d'] a by simp
  then show "\<exists>d d'. earth_dayStrength u f = Some d \<and> earth_dayStrength u' f' = Some d' \<and> d < d'"
    using a d d' by (simp add: earth_dayStrength_eq)
qed

lemma sunOrientation_z:
  "frag_sunOrientation earth_uniforms_example (earth_fragment_example\<lparr>vWorldNormal := Vec3 p 0 q\<rparr>)
   = (if length_vec (Vec3 p 0 q) = 0 then None else Some (q / length_vec (Vec3 p 0 q)))"
  by (simp add: frag_sunOrientation_def frag_N_def normalize_vec_def vdiv_def length_vec_axis
      earth_uniforms_example_def earth_fragment_example_def dot_def)

lemma length_vec_unit:
  "length_vec (Vec3 1 0 0) = 1" "length_vec (Vec3 (12 / 13) 0 (5 / 13)) = 1"
  by (simp_all add: length_vec_def dot_def)

theorem earth_dayStrength_blend_witness:
  "frag_sunOrientation earth_uniforms_example (earth_fragment_example\<lparr>vWorldNormal := Vec3 1 0 0\<rparr>) = Some 0
   \<and> frag_sunOrientation earth_uniforms_example
        (earth_fragment_example\<lparr>vWorldNormal := Vec3 (12 / 13) 0 (5 / 13)\<rparr>) = Some (5 / 13)
   \<and> earth_dayStrength earth_uniforms_example (earth_fragment_example\<lparr>vWorldNormal := Vec3 1 0 0\<rparr>)
        = Some (7 / 27)
   \<and> earth_dayStrength earth_uniforms_example
        (earth_fragment_example\<lparr>vWorldNormal := Vec3 (12 / 13) 0 (5 / 13)\<rparr>) = Some (2057 / 2197)
   \<and> (7 / 27 :: real) < 2057 / 2197
   \<and> earth_dayStrength earth_uniforms_example (earth_fragment_example\<lparr>vWorldNormal := Vec3 0 0 (- 1)\<rparr>)
        = Some 0
   \<and> earth_dayStrength earth_uniforms_example (earth_fragment_example\<lparr>vWorldNormal := Vec3 0 0 1\<rparr>)
        = Some 1"
proof -
  let ?u = earth_uniforms_example
  let ?f1 = "earth_fragment_example\<lparr>vWorldNormal := Vec3 1 0 0\<rparr>"
  let ?f2 = "earth_fragment_example\<lparr>vWorldNormal := Vec3 (12 / 13) 0 (5 / 13)\<rparr>"
  let ?f3 = "earth_fragment_example\<lparr>vWorldNormal := Vec3 0 0 (- 1)\<rparr>"
  let ?f4 = "earth_fragment_example\<lparr>vWorldNormal := Vec3 0 0 1\<rparr>"
  have s1: "frag_sunOrientation ?u ?f1 = Some 0"
    by (simp add: sunOrientation_z length_vec_unit)
  have s2: "frag_sunOrientation ?u ?f2 = Some (5 / 13)"
    by (simp add: sunOrientation_z length_vec_unit)
  have s3: "frag_sunOrientation ?u ?f3 = Some (- 1)"
    by (simp add: sunOrientation_z length_vec_axis)
  have s4: "frag_sunOrientation ?u ?f4 = Some 1"
    by (simp add: sunOrientation_z length_vec_axis)
  have "earth_dayStrength ?u ?f1 = smoothstep (- 0.25) 0.5 0"
    using earth_dayStrength_blend [of ?u ?f1 0] s1 by blast
  then have d1: "earth_dayStrength ?u ?f1 = Some (7 / 27)"
    by (simp add: smoothstep_eq Let_def)
  have "earth_dayStrength ?u ?f2 = smoothstep (- 0.25) 0.5 (5 / 13)"
    using earth_dayStrength_blend [of ?u ?f2 "5 / 13"] s2 by blast
  then have d2: "earth_dayStrength ?u ?f2 = Some (2057 / 2197)"
    by (simp add: smoothstep_eq Let_def)
  have "\<exists>d d'. earth_dayStrength ?u ?f1 = Some d \<and> earth_dayStrength ?u ?f2 = Some d' \<and> d < d'"
  proof -
    have "- 0.25 \<le> (0 :: real)" "(0 :: real) < 5 / 13" "(5 / 13 :: real) \<le> 0.5"
      by simp_all
    then show ?thesis
      using earth_dayStrength_blend [of ?u ?f1 0 ?u ?f2 "5 / 13", THEN conjunct2] s1 s2
      by blast
  qed
  then have lt: "(7 / 27 :: real) < 2057 / 2197"
    using d1 d2 by simp
  have d3: "earth_dayStrength ?u ?f3 = Some 0"
  proof -
    have "(- 1 :: real) \<le> - 0.25"
      by simp
    then show ?thesis
      using earth_dayStrength_blend [of ?u ?f3 "- 1", THEN conjunct1] s3 by blast
  qed
  have d4: "earth_dayStrength ?u ?f4 = Some 1"
  proof -
    have "0.5 \<le> (1 :: real)"
      by simp
    then show ?thesis
      using earth_dayStrength_blend [of ?u ?f4 1, THEN conjunct1] s4 by blast
  qed
  show ?thesis
    using s1 s2 d1 d2 lt d3 d4 by blast
qed

subsection \<open>Surface haze\<close>

lemma earth_pathLen_total: "\<exists>p. earth_pathLen u f = Some p \<and> 0 \<le> p"
proof -
  have "max (length_vec (vsub (vWorldPosition f) (cameraPosition u))) (1 / 10 ^ 6) \<noteq> 0"
    by (simp add: max_def)
  then show ?thesis
    by (simp add: earth_pathLen_def vdiv_def Let_def)
qed

lemma earth_pathLen_hazeFalloff:
  "earth_pathLen (u\<lparr>hazeFalloff := x\<rparr>) f = earth_pathLen u f"
  by (simp add: earth_pathLen_def)

lemma frag_sunOrientation_hazeFalloff:
  "frag_sunOrientation (u\<lparr>hazeFalloff := x\<rparr>) f = frag_sunOrientation u f"
  by (simp add: frag_sunOrientation_def)

lemma earth_haze_eq:
  assumes "frag_sunOrientation u f = Some s" "earth_pathLen u f = Some p"
    and "smoothstep (- 0.15) 0.25 s = Some k"
  shows "earth_haze u f =
    clamp ((1 - exp (- p / max (hazeFalloff u) 1)) * (0.25 + 0.75 * k) * hazeStrength u) 0 (hazeMax u)"
proof -
  have "max (hazeFalloff u) 1 \<noteq> 0"
    by (simp add: max_def)
  then show ?thesis
    using assms by (simp add: earth_haze_def fdiv_def Let_def)
qed

lemma earth_haze_cases:
  assumes "earth_haze u f = Some h"
  obtains s p k where "frag_sunOrientation u f = Some s" "earth_pathLen u f = Some p" "0 \<le> p"
    "smoothstep (- 0.15) 0.25 s = Some k" "0 \<le> k" "k \<le> 1" "0 \<le> hazeMax u"
    "h = min (max ((1 - exp (- p / max (hazeFalloff u) 1)) * (0.25 + 0.75 * k) * hazeStrength u) 0) (hazeMax u)"
proof -
  obtain s where s: "frag_sunOrientation u f = Some s"
    using assms by (auto simp: earth_haze_def split: Option.bind_splits)
  obtain p where p: "earth_pathLen u f = Some p" "0 \<le> p"
    using earth_pathLen_total by blast
  obtain k where k: "smoothstep (- 0.15) 0.25 s = Some k" "0 \<le> k" "k \<le> 1"
    using smoothstep_total [of "- 0.15" "0.25" s] by auto
  have "clamp ((1 - exp (- p / max (hazeFalloff u) 1)) * (0.25 + 0.75 * k) * hazeStrength u) 0 (hazeMax u) = Some h"
    using earth_haze_eq [OF s p(1) k(1)] assms by simp
  then have "0 \<le> hazeMax u"
    "h = min (max ((1 - exp (- p / max (hazeFalloff u) 1)) * (0.25 + 0.75 * k) * hazeStrength u) 0) (hazeMax u)"
    by (auto simp: clamp_def split: if_splits)
  then show ?thesis
    using that s p k by blast
qed

lemma earth_haze_range:
  assumes "earth_haze u f = Some h"
  shows "0 \<le> h \<and> h \<le> hazeMax u"
  using assms by (elim earth_haze_cases) auto

lemma extinction_mono:
  fixes p :: real
  assumes "0 \<le> p" "0 < a" "a \<le> b"
  shows "1 - exp (- p / b) \<le> 1 - exp (- p / a)" "0 \<le> 1 - exp (- p / b)"
proof -
  have "p / b \<le> p / a"
    using assms by (simp add: frac_le)
  then show "1 - exp (- p / b) \<le> 1 - exp (- p / a)"
    by simp
  have "0 \<le> p / b"
    using assms by simp
  then show "0 \<le> 1 - exp (- p / b)"
    by simp
qed

lemma extinction_strict_mono:
  fixes p :: real
  assumes "0 < p" "0 < a" "a < b"
  shows "1 - exp (- p / b) < 1 - exp (- p / a)" "0 < 1 - exp (- p / b)"
proof -
  have "p / b < p / a"
    using assms by (simp add: frac_less2)
  then show "1 - exp (- p / b) < 1 - exp (- p / a)"
    by simp
  have "0 < p / b"
    using assms by simp
  then show "0 < 1 - exp (- p / b)"
    by simp
qed

lemma earth_haze_mono:
  assumes "f1 \<le> f2"
    and h1: "earth_haze (u\<lparr>hazeFalloff := f1\<rparr>) f = Some h1"
    and h2: "earth_haze (u\<lparr>hazeFalloff := f2\<rparr>) f = Some h2"
  shows "h2 \<le> h1"
proof -
  from h1 obtain s p k where
    s: "frag_sunOrientation u f = Some s" and p: "earth_pathLen u f = Some p" "0 \<le> p"
    and k: "smoothstep (- 0.15) 0.25 s = Some k" "0 \<le> k" "k \<le> 1"
    and e1: "h1 = min (max ((1 - exp (- p / max f1 1)) * (0.25 + 0.75 * k) * hazeStrength u) 0) (hazeMax u)"
    by (elim earth_haze_cases)
      (simp add: earth_pathLen_hazeFalloff frag_sunOrientation_hazeFalloff)
  have "earth_haze (u\<lparr>hazeFalloff := f2\<rparr>) f =
      clamp ((1 - exp (- p / max f2 1)) * (0.25 + 0.75 * k) * hazeStrength u) 0 (hazeMax u)"
    using earth_haze_eq [of "u\<lparr>hazeFalloff := f2\<rparr>" f s p k] s p k
    by (simp add: earth_pathLen_hazeFalloff frag_sunOrientation_hazeFalloff)
  then have e2: "h2 = min (max ((1 - exp (- p / max f2 1)) * (0.25 + 0.75 * k) * hazeStrength u) 0) (hazeMax u)"
    using h2 by (auto simp: clamp_def split: if_splits)
  define a where "a = 1 - exp (- p / max f1 1)"
  define b where "b = 1 - exp (- p / max f2 1)"
  define c where "c = 0.25 + 0.75 * k"
  have ab: "b \<le> a" "0 \<le> b"
    using extinction_mono [of p "max f1 1" "max f2 1"] p assms(1)
    by (auto simp: a_def b_def)
  have c: "0 < c"
    using k by (simp add: c_def)
  have "max (b * c * hazeStrength u) 0 \<le> max (a * c * hazeStrength u) 0"
  proof (cases "0 \<le> hazeStrength u")
    case True
    have "b * c \<le> a * c"
      using ab c by simp
    then have "b * c * hazeStrength u \<le> a * c * hazeStrength u"
      using True by (rule mult_right_mono)
    then show ?thesis by simp
  next
    case False
    have "0 \<le> b * c"
      using ab c by simp
    then have "b * c * hazeStrength u \<le> 0"
      using False by (simp add: mult_nonneg_nonpos)
    then show ?thesis by simp
  qed
  then show ?thesis
    unfolding e1 e2 a_def [symmetric] b_def [symmetric] c_def [symmetric]
    by (simp add: min_le_iff_disj)
qed

lemma earth_haze_strict_mono:
  assumes "f1 < f2" "1 < f2" "0 < hazeStrength u"
    and p: "earth_pathLen u f = Some p" "0 < p"
    and h1: "earth_haze (u\<lparr>hazeFalloff := f1\<rparr>) f = Some h1"
    and h2: "earth_haze (u\<lparr>hazeFalloff := f2\<rparr>) f = Some h2"
    and "h1 < hazeMax u"
  shows "h2 < h1"
proof -
  from h1 obtain s p' k where
    s: "frag_sunOrientation u f = Some s" and p': "earth_pathLen u f = Some p'"
    and k: "smoothstep (- 0.15) 0.25 s = Some k" "0 \<le> k" "k \<le> 1"
    and e1': "h1 = min (max ((1 - exp (- p' / max f1 1)) * (0.25 + 0.75 * k) * hazeStrength u) 0) (hazeMax u)"
    by (elim earth_haze_cases)
      (simp add: earth_pathLen_hazeFalloff frag_sunOrientation_hazeFalloff)
  have pp: "p' = p"
    using p p' by simp
  have e1: "h1 = min (max ((1 - exp (- p / max f1 1)) * (0.25 + 0.75 * k) * hazeStrength u) 0) (hazeMax u)"
    using e1' pp by simp
  have "earth_haze (u\<lparr>hazeFalloff := f2\<rparr>) f =
      clamp ((1 - exp (- p / max f2 1)) * (0.25 + 0.75 * k) * hazeStrength u) 0 (hazeMax u)"
    using earth_haze_eq [of "u\<lparr>hazeFalloff := f2\<rparr>" f s p k] s p k
    by (simp add: earth_pathLen_hazeFalloff frag_sunOrientation_hazeFalloff)
  then have e2: "h2 = min (max ((1 - exp (- p / max f2 1)) * (0.25 + 0.75 * k) * hazeStrength u) 0) (hazeMax u)"
    using h2 by (auto simp: clamp_def split: if_splits)
  define a where "a = 1 - exp (- p / max f1 1)"
  define b where "b = 1 - exp (- p / max f2 1)"
  define c where "c = 0.25 + 0.75 * k"
  have "max f1 1 < max f2 1"
    using assms(1,2) by simp
  then have ab: "b < a" "0 < b"
    using extinction_strict_mono [of p "max f1 1" "max f2 1"] p(2)
    by (auto simp: a_def b_def)
  have c: "0 < c"
    using k by (simp add: c_def)
  have "b * c < a * c"
    using ab c by simp
  then have lt: "b * c * hazeStrength u < a * c * hazeStrength u"
    using assms(3) by (rule mult_strict_right_mono)
  have pos: "0 < b * c * hazeStrength u"
    using ab c assms(3) by simp
  have "h1 = a * c * hazeStrength u"
    using e1 assms(8) lt pos unfolding a_def [symmetric] c_def [symmetric]
    by (simp add: min_def max_def split: if_splits)
  moreover have "h2 \<le> b * c * hazeStrength u"
    using e2 pos unfolding b_def [symmetric] c_def [symmetric]
    by (simp add: min_def max_def split: if_splits)
  ultimately show ?thesis
    using lt by simp
qed

lemma earth_haze_defined:
  "(earth_haze u f \<noteq> None) = (frag_sunOrientation u f \<noteq> None \<and> 0 \<le> hazeMax u)"
proof (cases "frag_sunOrientation u f")
  case None
  then show ?thesis by (simp add: earth_haze_def)
next
  case (Some s)
  obtain p where p: "earth_pathLen u f = Some p"
    using earth_pathLen_total by blast
  obtain k where k: "smoothstep (- 0.15) 0.25 s = Some k"
    using smoothstep_total [of "- 0.15" "0.25" s] by auto
  show ?thesis
    using earth_haze_eq [OF Some p k] Some by (simp add: clamp_def)
qed

lemma example_sunOrientation:
  "frag_sunOrientation (earth_uniforms_example\<lparr>hazeFalloff := x, hazeStrength := y\<rparr>) earth_fragment_example = Some 1"
  by (simp add: frag_sunOrientation_def frag_N_def normalize_vec_axis earth_uniforms_example_def
      earth_fragment_example_def dot_def)

lemma example_pathLen:
  "earth_pathLen (earth_uniforms_example\<lparr>hazeFalloff := x, hazeStrength := y\<rparr>) earth_fragment_example = Some 100000"
proof -
  have "raySphereEntryT (Vec3 0 0 6471000) (Vec3 0 0 (- 1)) (6371000 * 1.04) = 0"
    by (rule raySphereEntryT_inside) (simp add: length_vec_axis)
  then show ?thesis
    by (simp add: earth_pathLen_def earth_uniforms_example_def earth_fragment_example_def
        vsub_def vdiv_def length_vec_axis Let_def)
qed

lemma example_haze:
  "earth_haze (earth_uniforms_example\<lparr>hazeFalloff := x, hazeStrength := y\<rparr>) earth_fragment_example
   = clamp ((1 - exp (- 100000 / max x 1)) * y) 0 0.85"
  using earth_haze_eq [OF example_sunOrientation [where x = x and y = y]
      example_pathLen [where x = x and y = y], of 1]
  by (simp add: smoothstep_high earth_uniforms_example_def)

text \<open>
  C2, as the code has it: a defined haze value lies in \<open>[0, hazeMax]\<close>, and it is defined exactly
  when the sun orientation is and \<open>hazeMax\<close> is not negative. The path length does not
  depend on \<open>hazeFalloff\<close>. For a fixed fragment a larger \<open>hazeFalloff\<close> never increases
  the haze; it strictly decreases it when the larger falloff exceeds the 1.0 floor of the
  guard, \<open>hazeStrength\<close> and the path length are positive and the smaller falloff's haze
  is below the \<open>hazeMax\<close> clamp.
\<close>

theorem earth_haze_bounds_and_falloff:
  "(earth_haze u f = Some h \<longrightarrow> 0 \<le> h \<and> h \<le> hazeMax u)
   \<and> ((earth_haze u f \<noteq> None) = (frag_sunOrientation u f \<noteq> None \<and> 0 \<le> hazeMax u))
   \<and> earth_pathLen (u\<lparr>hazeFalloff := f1\<rparr>) f = earth_pathLen (u\<lparr>hazeFalloff := f2\<rparr>) f
   \<and> (f1 \<le> f2 \<and> earth_haze (u\<lparr>hazeFalloff := f1\<rparr>) f = Some h1
        \<and> earth_haze (u\<lparr>hazeFalloff := f2\<rparr>) f = Some h2 \<longrightarrow> h2 \<le> h1)
   \<and> (f1 < f2 \<and> 1 < f2 \<and> 0 < hazeStrength u \<and> earth_pathLen u f = Some p \<and> 0 < p
        \<and> earth_haze (u\<lparr>hazeFalloff := f1\<rparr>) f = Some h1
        \<and> earth_haze (u\<lparr>hazeFalloff := f2\<rparr>) f = Some h2 \<and> h1 < hazeMax u \<longrightarrow> h2 < h1)"
proof (intro conjI impI)
  show "0 \<le> h" "h \<le> hazeMax u" if "earth_haze u f = Some h"
    using earth_haze_range [OF that] by simp_all
  show "(earth_haze u f \<noteq> None) = (frag_sunOrientation u f \<noteq> None \<and> 0 \<le> hazeMax u)"
    by (rule earth_haze_defined)
  show "earth_pathLen (u\<lparr>hazeFalloff := f1\<rparr>) f = earth_pathLen (u\<lparr>hazeFalloff := f2\<rparr>) f"
    by (simp add: earth_pathLen_hazeFalloff)
  show "h2 \<le> h1"
    if "f1 \<le> f2 \<and> earth_haze (u\<lparr>hazeFalloff := f1\<rparr>) f = Some h1
        \<and> earth_haze (u\<lparr>hazeFalloff := f2\<rparr>) f = Some h2"
    using that earth_haze_mono [of f1 f2 u f h1 h2] by blast
  show "h2 < h1"
    if "f1 < f2 \<and> 1 < f2 \<and> 0 < hazeStrength u \<and> earth_pathLen u f = Some p \<and> 0 < p
        \<and> earth_haze (u\<lparr>hazeFalloff := f1\<rparr>) f = Some h1
        \<and> earth_haze (u\<lparr>hazeFalloff := f2\<rparr>) f = Some h2 \<and> h1 < hazeMax u"
    using that earth_haze_strict_mono [of f1 f2 u f p h1 h2] by blast
qed

lemma example_haze_default:
  "earth_haze (earth_uniforms_example\<lparr>hazeFalloff := x\<rparr>) earth_fragment_example
   = clamp ((1 - exp (- 100000 / max x 1)) * 0.85) 0 0.85"
  using example_haze [where x = x and y = "0.85"] by (simp add: earth_uniforms_example_def)

theorem earth_haze_bounds_and_falloff_witness:
  "earth_pathLen earth_uniforms_example earth_fragment_example = Some 100000
   \<and> earth_haze (earth_uniforms_example\<lparr>hazeFalloff := 600000\<rparr>) earth_fragment_example
       = Some ((1 - exp (- (1 / 6))) * 0.85)
   \<and> earth_haze (earth_uniforms_example\<lparr>hazeFalloff := 1400000\<rparr>) earth_fragment_example
       = Some ((1 - exp (- (1 / 14))) * 0.85)
   \<and> (1 - exp (- (1 / 14))) * 0.85 < (1 - exp (- (1 / 6 :: real))) * 0.85
   \<and> 0 \<le> (1 - exp (- (1 / 14 :: real))) * 0.85
   \<and> (1 - exp (- (1 / 6 :: real))) * 0.85 \<le> hazeMax earth_uniforms_example"
proof -
  let ?u = earth_uniforms_example
  let ?f = earth_fragment_example
  let ?h1 = "(1 - exp (- (1 / 6 :: real))) * 0.85"
  let ?h2 = "(1 - exp (- (1 / 14 :: real))) * 0.85"
  have p: "earth_pathLen ?u ?f = Some 100000"
    using example_pathLen [where x = 900000 and y = "0.85"] by (simp add: earth_uniforms_example_def)
  have h1: "earth_haze (?u\<lparr>hazeFalloff := 600000\<rparr>) ?f = Some ?h1"
    by (simp add: example_haze_default clamp_def)
  have h2: "earth_haze (?u\<lparr>hazeFalloff := 1400000\<rparr>) ?f = Some ?h2"
    by (simp add: example_haze_default clamp_def)
  note T = earth_haze_bounds_and_falloff
    [of "?u\<lparr>hazeFalloff := 600000\<rparr>" ?f ?h1 600000 1400000 ?h1 ?h2 100000]
  have r: "0 \<le> ?h1 \<and> ?h1 \<le> hazeMax (?u\<lparr>hazeFalloff := 600000\<rparr>)"
    using T h1 by blast
  have r2: "0 \<le> ?h2"
    using earth_haze_bounds_and_falloff [of "?u\<lparr>hazeFalloff := 1400000\<rparr>" ?f ?h2] h2 by blast
  have "?h1 < hazeMax ?u"
    by (simp add: earth_uniforms_example_def)
  moreover have "0 < hazeStrength ?u"
    by (simp add: earth_uniforms_example_def)
  moreover have "(600000 :: real) < 1400000" "(1 :: real) < 1400000" "(0 :: real) < 100000"
    by simp_all
  ultimately have "?h2 < ?h1"
    using earth_haze_bounds_and_falloff [of ?u ?f ?h1 600000 1400000 ?h1 ?h2 100000] p h1 h2
    by blast
  then show ?thesis
    using p h1 h2 r r2 by simp
qed

theorem earth_haze_falloff_counterexample:
  "earth_pathLen (earth_uniforms_example\<lparr>hazeFalloff := 600000, hazeStrength := 0\<rparr>)
     earth_fragment_example = Some 100000
   \<and> earth_pathLen (earth_uniforms_example\<lparr>hazeFalloff := 1400000, hazeStrength := 0\<rparr>)
     earth_fragment_example = Some 100000
   \<and> earth_haze (earth_uniforms_example\<lparr>hazeFalloff := 600000, hazeStrength := 0\<rparr>)
     earth_fragment_example = Some 0
   \<and> earth_haze (earth_uniforms_example\<lparr>hazeFalloff := 1400000, hazeStrength := 0\<rparr>)
     earth_fragment_example = Some 0"
  by (simp add: example_pathLen example_haze clamp_def)

subsection \<open>Atmosphere shell alpha\<close>

lemma clamp_exp_nonpos: "x \<le> 0 \<Longrightarrow> clamp (exp x) 0 1 = Some (exp x)"
  by (simp add: clamp_def)

lemma neg_quotient_nonpos:
  fixes h m :: real
  shows "0 \<le> h \<Longrightarrow> 0 < m \<Longrightarrow> - h / m \<le> 0"
  by (simp add: divide_le_0_iff)

lemma atmosphere_density_eq:
  "atmosphere_density u f =
     Some (mix 0.18 1 (exp (- max 0 (length_vec (cameraPosition u)
        - length_vec (vWorldPosition f) / max (atmosphereScale u) (1 / 10 ^ 6))
        / max (heightFade u) 1)))"
proof -
  have "max (atmosphereScale u) (1 / 10 ^ 6) \<noteq> 0" "max (heightFade u) 1 \<noteq> 0"
    by (simp_all add: max_def)
  moreover have "- max 0 (length_vec (cameraPosition u)
        - length_vec (vWorldPosition f) / max (atmosphereScale u) (1 / 10 ^ 6))
        / max (heightFade u) 1 \<le> 0"
    by (rule neg_quotient_nonpos) (simp_all add: less_max_iff_disj)
  ultimately show ?thesis
    unfolding atmosphere_density_def Let_def fdiv_def
    by (simp only: if_False Option.bind.bind_lunit clamp_exp_nonpos)
qed

lemma mix_density_range:
  assumes "x \<le> 0"
  shows "0.18 \<le> mix 0.18 1 (exp x)" "mix 0.18 1 (exp x) \<le> 1"
proof -
  define e where "e = exp x"
  have e: "0 < e" "e \<le> 1"
    using assms by (simp_all add: e_def)
  have "mix 0.18 1 e = 0.18 + 0.82 * e"
    by (simp add: mix_def field_simps)
  then show "0.18 \<le> mix 0.18 1 (exp x)" "mix 0.18 1 (exp x) \<le> 1"
    using e unfolding e_def [symmetric] by simp_all
qed

lemma atmosphere_density_total:
  "\<exists>d. atmosphere_density u f = Some d \<and> 0.18 \<le> d \<and> d \<le> 1"
proof -
  have "- max 0 (length_vec (cameraPosition u)
        - length_vec (vWorldPosition f) / max (atmosphereScale u) (1 / 10 ^ 6))
        / max (heightFade u) 1 \<le> 0"
    by (rule neg_quotient_nonpos) (simp_all add: less_max_iff_disj)
  then show ?thesis
    unfolding atmosphere_density_eq using mix_density_range by blast
qed

lemma pow_nonneg: "pow x y = Some r \<Longrightarrow> 0 \<le> r"
  by (auto simp: pow_def split: if_splits)

lemma atmosphere_ring_nonneg: "atmosphere_ring u f = Some r \<Longrightarrow> 0 \<le> r"
  by (auto simp: atmosphere_ring_def Let_def pow_nonneg split: Option.bind_splits)

lemma atmosphere_sunSpot_nonneg: "atmosphere_sunSpot u f = Some r \<Longrightarrow> 0 \<le> r"
  by (auto simp: atmosphere_sunSpot_def pow_nonneg split: Option.bind_splits)

lemma atmosphere_alpha_eq:
  assumes "frag_sunOrientation u f = Some s" "atmosphere_ring u f = Some ring"
    and "atmosphere_density u f = Some density" "atmosphere_sunSpot u f = Some sunSpot"
    and "smoothstep (- 0.2) 0.25 s = Some k"
  shows "atmosphere_alpha u f =
    Some (min (max ((haloStrength u * density * ring + 0.35 * sunSpot * ring) * (0.25 + 0.75 * k)) 0) 1)"
  using assms by (simp add: atmosphere_alpha_def clamp_def Let_def)

lemma atmosphere_alpha_cases:
  assumes "atmosphere_alpha u f = Some al"
  obtains s ring density sunSpot k where
    "frag_sunOrientation u f = Some s" "atmosphere_ring u f = Some ring"
    "atmosphere_density u f = Some density" "atmosphere_sunSpot u f = Some sunSpot"
    "smoothstep (- 0.2) 0.25 s = Some k"
    "al = min (max ((haloStrength u * density * ring + 0.35 * sunSpot * ring) * (0.25 + 0.75 * k)) 0) 1"
proof -
  obtain s ring density sunSpot where c:
    "frag_sunOrientation u f = Some s" "atmosphere_ring u f = Some ring"
    "atmosphere_density u f = Some density" "atmosphere_sunSpot u f = Some sunSpot"
    using assms by (auto simp: atmosphere_alpha_def split: Option.bind_splits)
  obtain k where k: "smoothstep (- 0.2) 0.25 s = Some k"
    using smoothstep_total [of "- 0.2" "0.25" s] by auto
  show ?thesis
    using that [OF c k] atmosphere_alpha_eq [OF c k] assms by simp
qed

lemma night_factor_edges:
  assumes k: "smoothstep (- 0.2) 0.25 s = Some k" and k': "smoothstep (- 0.15) 0.25 s = Some k'"
  shows "k' \<le> k" "s \<le> - 0.2 \<or> 0.25 \<le> s \<Longrightarrow> k' = k" "- 0.2 < s \<Longrightarrow> s < 0.25 \<Longrightarrow> k' < k"
proof -
  define a where "a = min (max ((s - (- 0.2)) / (0.25 - (- 0.2))) 0) 1"
  define b where "b = min (max ((s - (- 0.15)) / (0.25 - (- 0.15))) 0) 1"
  have ka: "k = a * a * (3 - 2 * a)"
    using k smoothstep_eq [of "- 0.2" "0.25" s] by (simp add: a_def Let_def)
  have kb: "k' = b * b * (3 - 2 * b)"
    using k' smoothstep_eq [of "- 0.15" "0.25" s] by (simp add: b_def Let_def)
  have ab: "0 \<le> b" "a \<le> 1" "0 \<le> a" "b \<le> 1"
    by (simp_all add: a_def b_def)
  have le: "b \<le> a"
    unfolding a_def b_def by (simp add: min_def max_def field_simps)
  show "k' \<le> k"
    unfolding ka kb using ab(1) le ab(2) by (rule hermite_mono)
  show "k' = k" if "s \<le> - 0.2 \<or> 0.25 \<le> s"
  proof -
    have "a = b"
      using that unfolding a_def b_def by (auto simp: min_def max_def field_simps)
    then show ?thesis
      by (simp add: ka kb)
  qed
  show "k' < k" if "- 0.2 < s" "s < 0.25"
  proof -
    have "b < a"
      using that unfolding a_def b_def by (simp add: min_def max_def field_simps)
    then show ?thesis
      unfolding ka kb using ab(1,2) hermite_strict_mono [of b a] by simp
  qed
qed

lemma length_vec_eq: "0 \<le> r \<Longrightarrow> dot v v = r * r \<Longrightarrow> length_vec v = r"
  by (simp add: length_vec_def)

lemma limb_lengths:
  "length_vec (Vec3 (13 / 85) 0 (84 / 85)) = 1"
  "length_vec (Vec3 982800 0 6350400) = 6426000"
  "length_vec (Vec3 (- 982800) 0 152100) = 994500"
  by (rule length_vec_eq; simp add: dot_def)+

lemma limb_N: "frag_N atmosphere_fragment_limb = Some (Vec3 (13 / 85) 0 (84 / 85))"
  by (simp add: frag_N_def normalize_vec_def vdiv_def atmosphere_fragment_limb_def limb_lengths)

lemma limb_viewDir:
  "atmosphere_viewDir (atmosphere_uniforms_example\<lparr>sunDirection := d\<rparr>) atmosphere_fragment_limb
   = Some (Vec3 (- (84 / 85)) 0 (13 / 85))"
  by (simp add: atmosphere_viewDir_def normalize_vec_def vdiv_def vsub_def
      atmosphere_uniforms_example_def atmosphere_fragment_limb_def limb_lengths)

lemma limb_ring:
  "atmosphere_ring (atmosphere_uniforms_example\<lparr>sunDirection := d\<rparr>) atmosphere_fragment_limb = Some 1"
  by (simp add: atmosphere_ring_def limb_N limb_viewDir dot_def clamp_def pow_def Let_def)

lemma limb_density:
  "atmosphere_density (atmosphere_uniforms_example\<lparr>sunDirection := d\<rparr>) atmosphere_fragment_limb
   = Some (mix 0.18 1 (exp (- (1683 / 7280))))"
  by (simp add: atmosphere_density_eq atmosphere_uniforms_example_def atmosphere_fragment_limb_def
      limb_lengths length_vec_axis)

lemma limb_sunOrientation:
  "frag_sunOrientation (atmosphere_uniforms_example\<lparr>sunDirection := Vec3 0 q r\<rparr>)
     atmosphere_fragment_limb
   = (if length_vec (Vec3 0 q r) = 0 then None else Some (84 / 85 * (r / length_vec (Vec3 0 q r))))"
  by (simp add: frag_sunOrientation_def limb_N normalize_vec_def vdiv_def dot_def)

lemma limb_sunSpot:
  "atmosphere_sunSpot (atmosphere_uniforms_example\<lparr>sunDirection := Vec3 0 q r\<rparr>)
     atmosphere_fragment_limb
   = (if length_vec (Vec3 0 q r) = 0 then None
      else pow (max (- (13 / 85) * (r / length_vec (Vec3 0 q r))) 0) 10)"
  by (simp add: atmosphere_sunSpot_def limb_viewDir normalize_vec_def vdiv_def dot_def vneg_def
      mult.commute)

lemma example_sunDirection:
  "atmosphere_uniforms_example = atmosphere_uniforms_example\<lparr>sunDirection := Vec3 0 1 0\<rparr>"
  by (simp add: atmosphere_uniforms_example_def)

lemma length_vec_y: "length_vec (Vec3 0 1 0) = 1"
  by (simp add: length_vec_def dot_def)

lemma limb_values:
  "frag_sunOrientation atmosphere_uniforms_example atmosphere_fragment_limb = Some 0"
  "atmosphere_ring atmosphere_uniforms_example atmosphere_fragment_limb = Some 1"
  "atmosphere_density atmosphere_uniforms_example atmosphere_fragment_limb
     = Some (mix 0.18 1 (exp (- (1683 / 7280))))"
  "atmosphere_sunSpot atmosphere_uniforms_example atmosphere_fragment_limb = Some 0"
proof -
  show "frag_sunOrientation atmosphere_uniforms_example atmosphere_fragment_limb = Some 0"
    by (subst example_sunDirection) (simp add: limb_sunOrientation length_vec_y)
  show "atmosphere_ring atmosphere_uniforms_example atmosphere_fragment_limb = Some 1"
    by (subst example_sunDirection) (rule limb_ring)
  show "atmosphere_density atmosphere_uniforms_example atmosphere_fragment_limb
     = Some (mix 0.18 1 (exp (- (1683 / 7280))))"
    by (subst example_sunDirection) (rule limb_density)
  show "atmosphere_sunSpot atmosphere_uniforms_example atmosphere_fragment_limb = Some 0"
    by (subst example_sunDirection) (simp add: limb_sunSpot length_vec_y pow_def)
qed

lemma smoothstep_at_zero:
  "smoothstep (- 0.2) 0.25 0 = Some (304 / 729)" "smoothstep (- 0.15) 0.25 0 = Some (81 / 256)"
  by (simp_all add: smoothstep_eq Let_def)

text \<open>
  C4, as the code has it: the shell's alpha is the halo term scaled by the night factor and only then
  clamped to \<open>[0, 1]\<close>. The night factor has the form of the surface haze's factor with
  the lower edge -0.2 in place of -0.15: the two agree for a sun orientation up to -0.2 or
  from 0.25 on, and the shell's factor is strictly larger in between.
\<close>

theorem atmosphere_alpha_formula:
  "(frag_sunOrientation u f = Some s \<and> atmosphere_ring u f = Some ring
      \<and> atmosphere_density u f = Some density \<and> atmosphere_sunSpot u f = Some sunSpot \<longrightarrow>
      (\<exists>k. smoothstep (- 0.2) 0.25 s = Some k
        \<and> atmosphere_alpha u f =
            clamp ((haloStrength u * density * ring + 0.35 * sunSpot * ring) * (0.25 + 0.75 * k)) 0 1))
   \<and> (smoothstep (- 0.2) 0.25 s = Some k \<and> smoothstep (- 0.15) 0.25 s = Some k' \<longrightarrow>
        k' \<le> k \<and> (s \<le> - 0.2 \<or> 0.25 \<le> s \<longrightarrow> k' = k) \<and> (- 0.2 < s \<and> s < 0.25 \<longrightarrow> k' < k))"
proof (intro conjI impI)
  assume a: "frag_sunOrientation u f = Some s \<and> atmosphere_ring u f = Some ring
      \<and> atmosphere_density u f = Some density \<and> atmosphere_sunSpot u f = Some sunSpot"
  obtain k where k: "smoothstep (- 0.2) 0.25 s = Some k"
    using smoothstep_total [of "- 0.2" "0.25" s] by auto
  have "atmosphere_alpha u f =
      clamp ((haloStrength u * density * ring + 0.35 * sunSpot * ring) * (0.25 + 0.75 * k)) 0 1"
    using atmosphere_alpha_eq [of u f s ring density sunSpot k] a k by (simp add: clamp_def)
  then show "\<exists>k. smoothstep (- 0.2) 0.25 s = Some k
        \<and> atmosphere_alpha u f =
            clamp ((haloStrength u * density * ring + 0.35 * sunSpot * ring) * (0.25 + 0.75 * k)) 0 1"
    using k by blast
next
  assume a: "smoothstep (- 0.2) 0.25 s = Some k \<and> smoothstep (- 0.15) 0.25 s = Some k'"
  show "k' \<le> k"
    using a night_factor_edges(1) by blast
  show "k' = k" if "s \<le> - 0.2 \<or> 0.25 \<le> s"
    using a that night_factor_edges(2) by blast
  show "k' < k" if "- 0.2 < s \<and> s < 0.25"
    using a that night_factor_edges(3) by blast
qed

theorem atmosphere_alpha_formula_witness:
  "frag_sunOrientation atmosphere_uniforms_example atmosphere_fragment_limb = Some 0
   \<and> atmosphere_ring atmosphere_uniforms_example atmosphere_fragment_limb = Some 1
   \<and> atmosphere_density atmosphere_uniforms_example atmosphere_fragment_limb
       = Some (mix 0.18 1 (exp (- (1683 / 7280))))
   \<and> atmosphere_sunSpot atmosphere_uniforms_example atmosphere_fragment_limb = Some 0
   \<and> smoothstep (- 0.2) 0.25 0 = Some (304 / 729)
   \<and> smoothstep (- 0.15) 0.25 0 = Some (81 / 256)
   \<and> (81 / 256 :: real) < 304 / 729
   \<and> atmosphere_alpha atmosphere_uniforms_example atmosphere_fragment_limb
       = clamp ((haloStrength atmosphere_uniforms_example * mix 0.18 1 (exp (- (1683 / 7280))) * 1
                 + 0.35 * 0 * 1) * (0.25 + 0.75 * (304 / 729))) 0 1"
proof -
  let ?u = atmosphere_uniforms_example
  let ?f = atmosphere_fragment_limb
  let ?d = "mix 0.18 1 (exp (- (1683 / 7280)))"
  note T = atmosphere_alpha_formula [of ?u ?f 0 1 ?d 0 "304 / 729" "81 / 256"]
  have "\<exists>k. smoothstep (- 0.2) 0.25 0 = Some k
        \<and> atmosphere_alpha ?u ?f =
            clamp ((haloStrength ?u * ?d * 1 + 0.35 * 0 * 1) * (0.25 + 0.75 * k)) 0 1"
    using T [THEN conjunct1] limb_values by blast
  then obtain k where k: "smoothstep (- 0.2) 0.25 0 = Some k"
    and ak: "atmosphere_alpha ?u ?f =
      clamp ((haloStrength ?u * ?d * 1 + 0.35 * 0 * 1) * (0.25 + 0.75 * k)) 0 1"
    by blast
  have "k = 304 / 729"
    using k smoothstep_at_zero(1) by simp
  then have al: "atmosphere_alpha ?u ?f =
      clamp ((haloStrength ?u * ?d * 1 + 0.35 * 0 * 1) * (0.25 + 0.75 * (304 / 729))) 0 1"
    using ak by (simp only:)
  have "(- 0.2 :: real) < 0 \<and> (0 :: real) < 0.25"
    by simp
  then have "(81 / 256 :: real) < 304 / 729"
    using T [THEN conjunct2] smoothstep_at_zero by blast
  then show ?thesis
    using limb_values smoothstep_at_zero al by blast
qed

lemma limb_alpha:
  "atmosphere_alpha atmosphere_uniforms_example atmosphere_fragment_limb
   = Some (1.35 * mix 0.18 1 (exp (- (1683 / 7280))) * (547 / 972))"
proof -
  define d where "d = mix 0.18 1 (exp (- (1683 / 7280)))"
  have d: "0.18 \<le> d" "d \<le> 1"
    unfolding d_def by (rule mix_density_range; simp)+
  have "1.35 * d * (547 / 972) \<le> 1.35 * 1 * (547 / 972)"
    using d by simp
  then have "min (max (1.35 * d * (547 / 972)) 0) 1 = 1.35 * d * (547 / 972)"
    using d by simp
  moreover have "atmosphere_alpha atmosphere_uniforms_example atmosphere_fragment_limb
      = Some (min (max (1.35 * d * (547 / 972)) 0) 1)"
    using atmosphere_alpha_eq [OF limb_values smoothstep_at_zero(1)]
    by (simp add: d_def atmosphere_uniforms_example_def)
  ultimately show ?thesis
    by (simp add: d_def)
qed

lemma spec_atmosphere_alpha_eq:
  assumes "frag_sunOrientation u f = Some s" "atmosphere_ring u f = Some ring"
    and "atmosphere_density u f = Some density" "atmosphere_sunSpot u f = Some sunSpot"
    and "smoothstep (- 0.15) 0.25 s = Some k"
  shows "spec_atmosphere_alpha u f =
    Some (min (max (haloStrength u * density * ring + 0.35 * sunSpot * ring) 0) 1 * (0.25 + 0.75 * k))"
  using assms by (simp add: spec_atmosphere_alpha_def clamp_def)

lemma limb_spec_alpha:
  "spec_atmosphere_alpha atmosphere_uniforms_example atmosphere_fragment_limb = Some (499 / 1024)"
proof -
  define d where "d = mix 0.18 1 (exp (- (1683 / 7280)))"
  have "0.18 + 0.82 * (1 - 1683 / 7280) \<le> 0.18 + 0.82 * exp (- (1683 / 7280 :: real))"
    using exp_ge_add_one_self [of "- (1683 / 7280 :: real)"] by simp
  moreover have "d = 0.18 + 0.82 * exp (- (1683 / 7280))"
    by (simp add: d_def mix_def field_simps)
  ultimately have "1 \<le> 1.35 * d"
    by simp
  then have m: "min (max (1.35 * d) 0) 1 = 1"
    by simp
  have hs: "haloStrength atmosphere_uniforms_example = 1.35"
    by (simp add: atmosphere_uniforms_example_def)
  have "spec_atmosphere_alpha atmosphere_uniforms_example atmosphere_fragment_limb
      = Some (min (max (1.35 * d) 0) 1 * (0.25 + 0.75 * (81 / 256)))"
    using spec_atmosphere_alpha_eq [OF limb_values smoothstep_at_zero(2)]
    by (simp add: hs d_def)
  then show ?thesis
    unfolding m by simp
qed

theorem atmosphere_alpha_formula_counterexample:
  "atmosphere_alpha atmosphere_uniforms_example atmosphere_fragment_limb
     = Some (1.35 * mix 0.18 1 (exp (- (1683 / 7280))) * (547 / 972))
   \<and> spec_atmosphere_alpha atmosphere_uniforms_example atmosphere_fragment_limb = Some (499 / 1024)
   \<and> atmosphere_alpha atmosphere_uniforms_example atmosphere_fragment_limb
     \<noteq> spec_atmosphere_alpha atmosphere_uniforms_example atmosphere_fragment_limb"
proof -
  define d where "d = mix 0.18 1 (exp (- (1683 / 7280)))"
  have "0.18 + 0.82 * (1 - 1683 / 7280) \<le> 0.18 + 0.82 * exp (- (1683 / 7280 :: real))"
    using exp_ge_add_one_self [of "- (1683 / 7280 :: real)"] by simp
  moreover have "d = 0.18 + 0.82 * exp (- (1683 / 7280))"
    by (simp add: d_def mix_def field_simps)
  ultimately have "0.8 \<le> d"
    by simp
  then have "499 / 1024 < 1.35 * d * (547 / 972)"
    by simp
  then show ?thesis
    unfolding limb_alpha limb_spec_alpha d_def by simp
qed

subsection \<open>Range of the shell alpha\<close>

lemma zenith_values:
  "frag_sunOrientation (atmosphere_uniforms_example\<lparr>cameraPosition := Vec3 0 0 6371000\<rparr>)
     atmosphere_fragment_zenith = Some 0"
  "atmosphere_ring (atmosphere_uniforms_example\<lparr>cameraPosition := Vec3 0 0 6371000\<rparr>)
     atmosphere_fragment_zenith = Some 0"
  "atmosphere_sunSpot (atmosphere_uniforms_example\<lparr>cameraPosition := Vec3 0 0 6371000\<rparr>)
     atmosphere_fragment_zenith = Some 0"
  by (simp_all add: frag_sunOrientation_def frag_N_def atmosphere_ring_def atmosphere_sunSpot_def
      atmosphere_viewDir_def normalize_vec_def vdiv_def vsub_def vneg_def dot_def clamp_def pow_def
      length_vec_axis length_vec_y atmosphere_uniforms_example_def atmosphere_fragment_zenith_def)

lemma zenith_alpha:
  "atmosphere_alpha (atmosphere_uniforms_example\<lparr>cameraPosition := Vec3 0 0 6371000\<rparr>)
     atmosphere_fragment_zenith = Some 0"
proof -
  let ?u = "atmosphere_uniforms_example\<lparr>cameraPosition := Vec3 0 0 6371000\<rparr>"
  obtain d where d: "atmosphere_density ?u atmosphere_fragment_zenith = Some d"
    using atmosphere_density_total by blast
  show ?thesis
    using atmosphere_alpha_eq [OF zenith_values(1,2) d zenith_values(3) smoothstep_at_zero(1)]
    by simp
qed

lemma limb_day_values:
  "frag_sunOrientation (atmosphere_uniforms_example\<lparr>sunDirection := Vec3 0 0 1\<rparr>)
     atmosphere_fragment_limb = Some (84 / 85)"
  "atmosphere_sunSpot (atmosphere_uniforms_example\<lparr>sunDirection := Vec3 0 0 1\<rparr>)
     atmosphere_fragment_limb = Some 0"
  by (simp_all add: limb_sunOrientation limb_sunSpot length_vec_axis pow_def)

lemma limb_density_bound: "1 \<le> 1.35 * mix 0.18 1 (exp (- (1683 / 7280)))"
proof -
  have "0.18 + 0.82 * (1 - 1683 / 7280) \<le> 0.18 + 0.82 * exp (- (1683 / 7280 :: real))"
    using exp_ge_add_one_self [of "- (1683 / 7280 :: real)"] by simp
  moreover have "mix 0.18 1 (exp (- (1683 / 7280))) = 0.18 + 0.82 * exp (- (1683 / 7280))"
    by (simp add: mix_def field_simps)
  ultimately show ?thesis
    by simp
qed

lemma limb_day_alpha:
  "atmosphere_alpha (atmosphere_uniforms_example\<lparr>sunDirection := Vec3 0 0 1\<rparr>)
     atmosphere_fragment_limb = Some 1"
proof -
  let ?u = "atmosphere_uniforms_example\<lparr>sunDirection := Vec3 0 0 1\<rparr>"
  have k: "smoothstep (- 0.2) 0.25 (84 / 85) = Some 1"
    by (rule smoothstep_high) simp_all
  have hs: "haloStrength ?u = 1.35"
    by (simp add: atmosphere_uniforms_example_def)
  have "atmosphere_alpha ?u atmosphere_fragment_limb
      = Some (min (max (1.35 * mix 0.18 1 (exp (- (1683 / 7280)))) 0) 1)"
    using atmosphere_alpha_eq [OF limb_day_values(1) limb_ring limb_density limb_day_values(2) k]
    by (simp add: hs)
  then show ?thesis
    using limb_density_bound by simp
qed

text \<open>
  C5, as the code has it: a defined alpha lies in the closed interval \<open>[0, 1]\<close>. It is 0 exactly
  when the scaled halo term is not positive and 1 exactly when that term is at least 1;
  the night factor itself stays within \<open>[0.25, 1]\<close>.
\<close>

theorem atmosphere_alpha_range:
  "(atmosphere_alpha u f = Some al \<longrightarrow> 0 \<le> al \<and> al \<le> 1)
   \<and> (frag_sunOrientation u f = Some s \<and> atmosphere_ring u f = Some ring
        \<and> atmosphere_density u f = Some density \<and> atmosphere_sunSpot u f = Some sunSpot
        \<and> smoothstep (- 0.2) 0.25 s = Some k \<longrightarrow>
      ((atmosphere_alpha u f = Some 0)
         = ((haloStrength u * density * ring + 0.35 * sunSpot * ring) * (0.25 + 0.75 * k) \<le> 0))
      \<and> ((atmosphere_alpha u f = Some 1)
         = (1 \<le> (haloStrength u * density * ring + 0.35 * sunSpot * ring) * (0.25 + 0.75 * k)))
      \<and> 0.25 \<le> 0.25 + 0.75 * k \<and> 0.25 + 0.75 * k \<le> 1)"
proof (intro conjI impI)
  assume "atmosphere_alpha u f = Some al"
  then show "0 \<le> al" "al \<le> 1"
    by (auto elim!: atmosphere_alpha_cases)
next
  assume a: "frag_sunOrientation u f = Some s \<and> atmosphere_ring u f = Some ring
        \<and> atmosphere_density u f = Some density \<and> atmosphere_sunSpot u f = Some sunSpot
        \<and> smoothstep (- 0.2) 0.25 s = Some k"
  define x where "x = (haloStrength u * density * ring + 0.35 * sunSpot * ring) * (0.25 + 0.75 * k)"
  have al: "atmosphere_alpha u f = Some (min (max x 0) 1)"
    using atmosphere_alpha_eq [of u f s ring density sunSpot k] a by (simp add: x_def)
  show "(atmosphere_alpha u f = Some 0)
         = ((haloStrength u * density * ring + 0.35 * sunSpot * ring) * (0.25 + 0.75 * k) \<le> 0)"
    unfolding al x_def [symmetric] by (auto simp: min_def max_def)
  show "(atmosphere_alpha u f = Some 1)
         = (1 \<le> (haloStrength u * density * ring + 0.35 * sunSpot * ring) * (0.25 + 0.75 * k))"
    unfolding al x_def [symmetric] by (auto simp: min_def max_def)
  have "0 \<le> k \<and> k \<le> 1"
    using a smoothstep_range by blast
  then show "0.25 \<le> 0.25 + 0.75 * k" "0.25 + 0.75 * k \<le> 1"
    by simp_all
qed

theorem atmosphere_alpha_range_witness:
  "atmosphere_alpha atmosphere_uniforms_example atmosphere_fragment_limb
     = Some (1.35 * mix 0.18 1 (exp (- (1683 / 7280))) * (547 / 972))
   \<and> 0 \<le> 1.35 * mix 0.18 1 (exp (- (1683 / 7280))) * (547 / 972)
   \<and> 1.35 * mix 0.18 1 (exp (- (1683 / 7280))) * (547 / 972) \<le> 1
   \<and> frag_sunOrientation atmosphere_uniforms_example atmosphere_fragment_limb = Some 0
   \<and> atmosphere_ring atmosphere_uniforms_example atmosphere_fragment_limb = Some 1
   \<and> atmosphere_density atmosphere_uniforms_example atmosphere_fragment_limb
       = Some (mix 0.18 1 (exp (- (1683 / 7280))))
   \<and> atmosphere_sunSpot atmosphere_uniforms_example atmosphere_fragment_limb = Some 0
   \<and> smoothstep (- 0.2) 0.25 0 = Some (304 / 729)
   \<and> atmosphere_alpha atmosphere_uniforms_example atmosphere_fragment_limb \<noteq> Some 0
   \<and> atmosphere_alpha atmosphere_uniforms_example atmosphere_fragment_limb \<noteq> Some 1"
proof -
  let ?u = atmosphere_uniforms_example
  let ?f = atmosphere_fragment_limb
  let ?d = "mix 0.18 1 (exp (- (1683 / 7280)))"
  let ?al = "1.35 * ?d * (547 / 972)"
  note T = atmosphere_alpha_range [of ?u ?f ?al 0 1 ?d 0 "304 / 729"]
  have r: "0 \<le> ?al \<and> ?al \<le> 1"
    using T [THEN conjunct1] limb_alpha by blast
  have hs: "haloStrength ?u = 1.35"
    by (simp add: atmosphere_uniforms_example_def)
  have d: "0.18 \<le> ?d" "?d \<le> 1"
    by (rule mix_density_range; simp)+
  have x: "(haloStrength ?u * ?d * 1 + 0.35 * 0 * 1) * (0.25 + 0.75 * (304 / 729)) = ?al"
    by (simp add: hs)
  have "0 < ?al" "?al < 1"
    using d by simp_all
  then have n: "\<not> (haloStrength ?u * ?d * 1 + 0.35 * 0 * 1) * (0.25 + 0.75 * (304 / 729)) \<le> 0"
    "\<not> 1 \<le> (haloStrength ?u * ?d * 1 + 0.35 * 0 * 1) * (0.25 + 0.75 * (304 / 729))"
    unfolding x by simp_all
  have "atmosphere_alpha ?u ?f \<noteq> Some 0" "atmosphere_alpha ?u ?f \<noteq> Some 1"
    using T [THEN conjunct2] limb_values smoothstep_at_zero(1) n by blast+
  then show ?thesis
    using limb_alpha r limb_values smoothstep_at_zero(1) by blast
qed

theorem atmosphere_alpha_range_counterexample:
  "atmosphere_alpha (atmosphere_uniforms_example\<lparr>cameraPosition := Vec3 0 0 6371000\<rparr>)
     atmosphere_fragment_zenith = Some 0
   \<and> atmosphere_alpha (atmosphere_uniforms_example\<lparr>sunDirection := Vec3 0 0 1\<rparr>)
     atmosphere_fragment_limb = Some 1"
  using zenith_alpha limb_day_alpha by (rule conjI)

subsection \<open>Where the shaders are defined\<close>

lemma length_vec_zero_iff: "(length_vec v = 0) = (v = Vec3 0 0 0)"
proof (cases v)
  case (Vec3 p q r)
  have "(p * p + q * q + r * r = 0) = (p = 0 \<and> q = 0 \<and> r = 0)"
  proof
    assume z: "p * p + q * q + r * r = 0"
    have "0 \<le> p * p" "0 \<le> q * q" "0 \<le> r * r"
      by simp_all
    with z have "p * p = 0" "q * q = 0" "r * r = 0"
      by linarith+
    then show "p = 0 \<and> q = 0 \<and> r = 0"
      by simp
  qed simp
  then show ?thesis
    using Vec3 by (simp add: length_vec_def dot_def)
qed

lemma normalize_vec_None: "(normalize_vec v = None) = (v = Vec3 0 0 0)"
  by (simp add: normalize_vec_def vdiv_def length_vec_zero_iff)

lemma vsub_zero_iff: "(vsub p q = Vec3 0 0 0) = (p = q)"
  by (cases p; cases q) (simp add: vsub_def)

lemma frag_N_None: "(frag_N f = None) = (vWorldNormal f = Vec3 0 0 0)"
  using normalize_vec_None [of "vWorldNormal f"]
  by (auto simp: frag_N_def split: Option.bind_splits)

lemma frag_sunOrientation_None:
  "(frag_sunOrientation u f = None)
   = (vWorldNormal f = Vec3 0 0 0 \<or> sunDirection u = Vec3 0 0 0)"
  using frag_N_None [of f] normalize_vec_None [of "sunDirection u"]
  by (auto simp: frag_sunOrientation_def split: Option.bind_splits)

lemma frag_atmosphereColor_None:
  "(frag_atmosphereColor u f = None) = (frag_sunOrientation u f = None)"
proof (cases "frag_sunOrientation u f")
  case None
  then show ?thesis by (simp add: frag_atmosphereColor_def)
next
  case (Some s)
  obtain k where "smoothstep (- 0.25) 0.75 s = Some k"
    using smoothstep_total [of "- 0.25" "0.75" s] by auto
  then show ?thesis
    using Some by (simp add: frag_atmosphereColor_def)
qed

lemma earth_dayStrength_None:
  "(earth_dayStrength u f = None) = (frag_sunOrientation u f = None)"
proof (cases "frag_sunOrientation u f")
  case None
  then show ?thesis by (simp add: earth_dayStrength_def)
next
  case (Some s)
  obtain k where "smoothstep (- 0.25) 0.5 s = Some k"
    using smoothstep_total [of "- 0.25" "0.5" s] by auto
  then show ?thesis
    using Some by (simp add: earth_dayStrength_def)
qed

lemma earth_haze_None:
  "(earth_haze u f = None) = (frag_sunOrientation u f = None \<or> hazeMax u < 0)"
  using earth_haze_defined [of u f] by auto

lemma horizon_defined: "\<exists>m hz. clamp x 0 1 = Some m \<and> pow (1 - m) 2 = Some hz"
  by (simp add: clamp_def pow_def)

lemma earth_main_defined:
  "(earth_main u f \<noteq> None)
   = (vWorldNormal f \<noteq> Vec3 0 0 0 \<and> sunDirection u \<noteq> Vec3 0 0 0
      \<and> cameraPosition u \<noteq> vWorldPosition f \<and> 0 \<le> hazeMax u)"
proof
  assume "earth_main u f \<noteq> None"
  then obtain c where "earth_main u f = Some c"
    by auto
  then have "frag_N f \<noteq> None \<and> earth_haze u f \<noteq> None
    \<and> normalize_vec (vsub (cameraPosition u) (vWorldPosition f)) \<noteq> None"
    by (auto simp: earth_main_def Let_def split: Option.bind_splits)
  then show "vWorldNormal f \<noteq> Vec3 0 0 0 \<and> sunDirection u \<noteq> Vec3 0 0 0
      \<and> cameraPosition u \<noteq> vWorldPosition f \<and> 0 \<le> hazeMax u"
    unfolding frag_N_None earth_haze_None normalize_vec_None frag_sunOrientation_None
      vsub_zero_iff
    by auto
next
  assume a: "vWorldNormal f \<noteq> Vec3 0 0 0 \<and> sunDirection u \<noteq> Vec3 0 0 0
      \<and> cameraPosition u \<noteq> vWorldPosition f \<and> 0 \<le> hazeMax u"
  obtain cs where cs: "smoothstep 0.2 1 (vz (rgb_of (brc f))) = Some cs"
    using smoothstep_total [of "0.2" 1] by auto
  obtain N where N: "frag_N f = Some N"
    using a frag_N_None [of f] by auto
  have so: "frag_sunOrientation u f \<noteq> None"
    using a frag_sunOrientation_None [of u f] by blast
  obtain ds where ds: "earth_dayStrength u f = Some ds"
    using so earth_dayStrength_None [of u f] by auto
  obtain ac where ac: "frag_atmosphereColor u f = Some ac"
    using so frag_atmosphereColor_None [of u f] by auto
  obtain h where h: "earth_haze u f = Some h"
    using so a earth_haze_None [of u f] by auto
  obtain vd where vd: "normalize_vec (vsub (cameraPosition u) (vWorldPosition f)) = Some vd"
    using a normalize_vec_None [of "vsub (cameraPosition u) (vWorldPosition f)"]
      vsub_zero_iff [of "cameraPosition u" "vWorldPosition f"] by auto
  obtain m hz where m: "clamp (dot N vd) 0 1 = Some m" "pow (1 - m) 2 = Some hz"
    using horizon_defined by blast
  show "earth_main u f \<noteq> None"
    using cs by (simp add: earth_main_def Let_def N ds ac h vd m)
qed

lemma atmosphere_viewDir_None:
  "(atmosphere_viewDir u f = None) = (cameraPosition u = vWorldPosition f)"
  by (simp add: atmosphere_viewDir_def normalize_vec_None vsub_zero_iff)

lemma atmosphere_ring_defined:
  assumes "vWorldNormal f \<noteq> Vec3 0 0 0" "cameraPosition u \<noteq> vWorldPosition f" "0 < haloPower u"
  shows "\<exists>r. atmosphere_ring u f = Some r"
proof -
  obtain N where N: "frag_N f = Some N"
    using assms(1) frag_N_None [of f] by auto
  obtain vd where vd: "atmosphere_viewDir u f = Some vd"
    using assms(2) atmosphere_viewDir_None [of u f] by auto
  show ?thesis
    using assms(3) by (simp add: atmosphere_ring_def Let_def N vd clamp_def pow_def)
qed

lemma atmosphere_sunSpot_defined:
  assumes "sunDirection u \<noteq> Vec3 0 0 0" "cameraPosition u \<noteq> vWorldPosition f"
  shows "\<exists>r. atmosphere_sunSpot u f = Some r"
proof -
  obtain sd where sd: "normalize_vec (sunDirection u) = Some sd"
    using assms(1) normalize_vec_None [of "sunDirection u"] by auto
  obtain vd where vd: "atmosphere_viewDir u f = Some vd"
    using assms(2) atmosphere_viewDir_None [of u f] by auto
  show ?thesis
    by (simp add: atmosphere_sunSpot_def sd vd pow_def)
qed

lemma atmosphere_main_defined:
  assumes "vWorldNormal f \<noteq> Vec3 0 0 0" "sunDirection u \<noteq> Vec3 0 0 0"
    and "cameraPosition u \<noteq> vWorldPosition f" "0 < haloPower u"
  shows "\<exists>c. atmosphere_main u f = Some c \<and> 0 \<le> alpha_of c \<and> alpha_of c \<le> 1"
proof -
  obtain s where s: "frag_sunOrientation u f = Some s"
    using assms(1,2) frag_sunOrientation_None [of u f] by auto
  obtain ac where ac: "frag_atmosphereColor u f = Some ac"
    using s frag_atmosphereColor_None [of u f] by auto
  obtain ring where ring: "atmosphere_ring u f = Some ring"
    using atmosphere_ring_defined [OF assms(1,3,4)] by auto
  obtain d where d: "atmosphere_density u f = Some d"
    using atmosphere_density_total by blast
  obtain sp where sp: "atmosphere_sunSpot u f = Some sp"
    using atmosphere_sunSpot_defined [OF assms(2,3)] by auto
  obtain k where k: "smoothstep (- 0.2) 0.25 s = Some k"
    using smoothstep_total [of "- 0.2" "0.25" s] by auto
  show ?thesis
    by (simp add: atmosphere_main_def ac atmosphere_alpha_eq [OF s ring d sp k])
qed

lemma atmosphere_main_sun_undefined:
  "sunDirection u = Vec3 0 0 0 \<Longrightarrow> atmosphere_main u f = None"
  using frag_atmosphereColor_None [of u f] frag_sunOrientation_None [of u f]
  by (simp add: atmosphere_main_def)

lemma earth_main_sun_undefined:
  "sunDirection u = Vec3 0 0 0 \<Longrightarrow> earth_main u f = None"
  using earth_main_defined [of u f] by auto

text \<open>
  C9, as the code has it: the four quotients of the two shaders have denominators that the guards
  keep strictly positive, so the path length and the density are defined for every input
  and every \<open>hazeFalloff\<close>, \<open>heightFade\<close> and \<open>atmosphereScale\<close>. The surface shader yields a
  colour exactly when the normal and the sun direction are not the zero vector, the camera
  is not at the fragment and \<open>hazeMax\<close> is not negative; the shell shader yields a colour
  and an alpha in \<open>[0, 1]\<close> when, in addition to the first three, \<open>haloPower\<close> is positive.
\<close>

theorem shaders_defined:
  "(\<exists>p. earth_pathLen u f = Some p \<and> 0 \<le> p)
   \<and> (\<exists>d. atmosphere_density w g = Some d \<and> 0.18 \<le> d \<and> d \<le> 1)
   \<and> 0 < max (length_vec (vsub (vWorldPosition f) (cameraPosition u))) (1 / 10 ^ 6)
   \<and> 0 < max (hazeFalloff u) 1
   \<and> 0 < max (atmosphereScale w) (1 / 10 ^ 6)
   \<and> 0 < max (heightFade w) 1
   \<and> ((earth_main u f \<noteq> None)
        = (vWorldNormal f \<noteq> Vec3 0 0 0 \<and> sunDirection u \<noteq> Vec3 0 0 0
           \<and> cameraPosition u \<noteq> vWorldPosition f \<and> 0 \<le> hazeMax u))
   \<and> (vWorldNormal g \<noteq> Vec3 0 0 0 \<and> sunDirection w \<noteq> Vec3 0 0 0
        \<and> cameraPosition w \<noteq> vWorldPosition g \<and> 0 < haloPower w \<longrightarrow>
      (\<exists>c. atmosphere_main w g = Some c \<and> 0 \<le> alpha_of c \<and> alpha_of c \<le> 1))"
proof (intro conjI impI)
  show "\<exists>p. earth_pathLen u f = Some p \<and> 0 \<le> p"
    by (rule earth_pathLen_total)
  show "\<exists>d. atmosphere_density w g = Some d \<and> 0.18 \<le> d \<and> d \<le> 1"
    by (rule atmosphere_density_total)
  show "0 < max (length_vec (vsub (vWorldPosition f) (cameraPosition u))) (1 / 10 ^ 6)"
    "0 < max (hazeFalloff u) 1" "0 < max (atmosphereScale w) (1 / 10 ^ 6)"
    "0 < max (heightFade w) 1"
    by (simp_all add: less_max_iff_disj)
  show "(earth_main u f \<noteq> None)
        = (vWorldNormal f \<noteq> Vec3 0 0 0 \<and> sunDirection u \<noteq> Vec3 0 0 0
           \<and> cameraPosition u \<noteq> vWorldPosition f \<and> 0 \<le> hazeMax u)"
    by (rule earth_main_defined)
  show "\<exists>c. atmosphere_main w g = Some c \<and> 0 \<le> alpha_of c \<and> alpha_of c \<le> 1"
    if "vWorldNormal g \<noteq> Vec3 0 0 0 \<and> sunDirection w \<noteq> Vec3 0 0 0
        \<and> cameraPosition w \<noteq> vWorldPosition g \<and> 0 < haloPower w"
    using that atmosphere_main_defined [of g w] by blast
qed

theorem shaders_defined_witness:
  "earth_main (earth_uniforms_example\<lparr>atmosphereScale := - 1, hazeFalloff := 0\<rparr>)
     earth_fragment_example \<noteq> None
   \<and> atmosphere_main (atmosphere_uniforms_example\<lparr>atmosphereScale := 0, heightFade := - 5\<rparr>)
     atmosphere_fragment_limb \<noteq> None
   \<and> earth_pathLen (earth_uniforms_example\<lparr>atmosphereScale := - 1, hazeFalloff := 0\<rparr>)
     earth_fragment_example \<noteq> None
   \<and> atmosphere_density (atmosphere_uniforms_example\<lparr>atmosphereScale := 0, heightFade := - 5\<rparr>)
     atmosphere_fragment_limb \<noteq> None"
proof -
  let ?u = "earth_uniforms_example\<lparr>atmosphereScale := - 1, hazeFalloff := 0\<rparr>"
  let ?w = "atmosphere_uniforms_example\<lparr>atmosphereScale := 0, heightFade := - 5\<rparr>"
  note T = shaders_defined [of ?u earth_fragment_example ?w atmosphere_fragment_limb]
  have e: "vWorldNormal earth_fragment_example \<noteq> Vec3 0 0 0 \<and> sunDirection ?u \<noteq> Vec3 0 0 0
      \<and> cameraPosition ?u \<noteq> vWorldPosition earth_fragment_example \<and> 0 \<le> hazeMax ?u"
    by (simp add: earth_uniforms_example_def earth_fragment_example_def)
  have a: "vWorldNormal atmosphere_fragment_limb \<noteq> Vec3 0 0 0 \<and> sunDirection ?w \<noteq> Vec3 0 0 0
      \<and> cameraPosition ?w \<noteq> vWorldPosition atmosphere_fragment_limb \<and> 0 < haloPower ?w"
    by (simp add: atmosphere_uniforms_example_def atmosphere_fragment_limb_def)
  show ?thesis
    using T e a by auto
qed

theorem shaders_defined_counterexample:
  "earth_main (earth_uniforms_example\<lparr>sunDirection := Vec3 0 0 0\<rparr>) earth_fragment_example = None
   \<and> atmosphere_main (atmosphere_uniforms_example\<lparr>sunDirection := Vec3 0 0 0\<rparr>)
       atmosphere_fragment_limb = None"
  by (simp add: earth_main_sun_undefined atmosphere_main_sun_undefined)

subsection \<open>Arguments of the arcsines\<close>

lemma declination_argument: "\<bar>sin L * sin e\<bar> \<le> (1 :: real)"
proof -
  have "\<bar>sin L\<bar> * \<bar>sin e\<bar> \<le> 1 * 1"
    by (intro mult_mono) auto
  then show ?thesis
    by (simp add: abs_mult)
qed

lemma cauchy_pair:
  fixes a b c e :: real
  shows "(a * c + b * e)\<^sup>2 \<le> (a\<^sup>2 + b\<^sup>2) * (c\<^sup>2 + e\<^sup>2)"
proof -
  have "(a\<^sup>2 + b\<^sup>2) * (c\<^sup>2 + e\<^sup>2) - (a * c + b * e)\<^sup>2 = (a * e - b * c)\<^sup>2"
    by (simp add: power2_eq_square algebra_simps)
  moreover have "0 \<le> (a * e - b * c)\<^sup>2"
    by simp
  ultimately show ?thesis
    by linarith
qed

lemma altitude_argument:
  "\<bar>sin p * sin d + cos p * cos d * cos h\<bar> \<le> (1 :: real)"
proof -
  define x where "x = sin p * sin d + cos p * (cos d * cos h)"
  have "x\<^sup>2 \<le> ((sin p)\<^sup>2 + (cos p)\<^sup>2) * ((sin d)\<^sup>2 + (cos d * cos h)\<^sup>2)"
    unfolding x_def by (rule cauchy_pair)
  then have cs: "x\<^sup>2 \<le> (sin d)\<^sup>2 + (cos d * cos h)\<^sup>2"
    by simp
  have "(cos h)\<^sup>2 \<le> 1"
    by (simp add: abs_square_le_1)
  then have "(cos d)\<^sup>2 * (cos h)\<^sup>2 \<le> (cos d)\<^sup>2 * 1"
    by (intro mult_left_mono) simp_all
  moreover have "(cos d * cos h)\<^sup>2 = (cos d)\<^sup>2 * (cos h)\<^sup>2"
    by (rule power_mult_distrib)
  ultimately have "x\<^sup>2 \<le> 1"
    using cs sin_cos_squared_add [of d] by linarith
  then have "\<bar>x\<bar> \<le> 1"
    by (simp add: abs_square_le_1)
  then show ?thesis
    by (simp add: x_def mult.assoc)
qed

subsection \<open>The simulated clock\<close>

lemma TimeClip_int:
  "\<bar>real_of_int k\<bar> \<le> 864 * 10 ^ 13 \<Longrightarrow> TimeClip (real_of_int k) = Some k"
  by (simp add: TimeClip_def)

lemma updateSunPosition_None_fields:
  "currentDate (updateSunPosition None s) = currentDate s"
  "timeSpeed (updateSunPosition None s) = timeSpeed s"
  "useSimplified (updateSunPosition None s) = useSimplified s"
  "latitude (updateSunPosition None s) = latitude s"
  "longitude (updateSunPosition None s) = longitude s"
  "sunDistance (updateSunPosition None s) = sunDistance s"
  by (simp_all add: updateSunPosition_def Let_def)

lemma updateSunPosition_idem:
  "updateSunPosition None (updateSunPosition None s) = updateSunPosition None s"
  by (simp add: updateSunPosition_def Let_def)

lemma update_currentDate:
  "timeSpeed s \<noteq> 0 \<Longrightarrow>
   currentDate (update d s)
     = new_Date (map_option (\<lambda>t. t + d * 1000 * timeSpeed s) (getTime (currentDate s)))"
  by (simp add: update_def Let_def updateSunPosition_None_fields)

lemma update_timeSpeed: "timeSpeed (update d s) = timeSpeed s"
  by (simp add: update_def Let_def updateSunPosition_None_fields)

lemma update_whole:
  assumes "timeSpeed s \<noteq> 0" "currentDate s = Some t" "d * 1000 * timeSpeed s = real_of_int k"
    and "\<bar>real_of_int (t + k)\<bar> \<le> 864 * 10 ^ 13"
  shows "currentDate (update d s) = Some (t + k)"
proof -
  have "real_of_int t + d * 1000 * timeSpeed s = real_of_int (t + k)"
    using assms(3) by simp
  then show ?thesis
    using assms(1,2,4) TimeClip_int [of "t + k"]
    by (simp add: update_currentDate getTime_def new_Date_def)
qed

lemma update_twice:
  assumes "timeSpeed s \<noteq> 0" "currentDate s = Some t" "d * 1000 * timeSpeed s = real_of_int k"
    and "\<bar>real_of_int (t + k)\<bar> \<le> 864 * 10 ^ 13" "\<bar>real_of_int (t + 2 * k)\<bar> \<le> 864 * 10 ^ 13"
  shows "currentDate (update d (update d s)) = Some (t + 2 * k)"
proof -
  have 1: "currentDate (update d s) = Some (t + k)"
    using assms(1-4) by (rule update_whole)
  have 2: "timeSpeed (update d s) \<noteq> 0" "d * 1000 * timeSpeed (update d s) = real_of_int k"
    using assms(1,3) by (simp_all add: update_timeSpeed)
  have "currentDate (update d (update d s)) = Some (t + k + k)"
    using 2(1) 1 2(2) by (rule update_whole) (use assms(5) in \<open>simp add: algebra_simps\<close>)
  then show ?thesis
    by simp
qed

lemma update_paused: "timeSpeed s = 0 \<Longrightarrow> update d s = s"
  by (simp add: update_def)

lemma update_recomputed:
  "timeSpeed s \<noteq> 0 \<Longrightarrow> updateSunPosition None (update d s) = update d s"
  by (simp add: update_def Let_def updateSunPosition_idem)

lemma update_truncates:
  assumes "timeSpeed s \<noteq> 0" "currentDate s = Some t"
    and "\<bar>real_of_int t + d * 1000 * timeSpeed s\<bar> \<le> 864 * 10 ^ 13"
  shows "currentDate (update d s)
    = Some (if 0 \<le> real_of_int t + d * 1000 * timeSpeed s
            then \<lfloor>real_of_int t + d * 1000 * timeSpeed s\<rfloor>
            else \<lceil>real_of_int t + d * 1000 * timeSpeed s\<rceil>)"
  using assms by (simp add: update_currentDate getTime_def new_Date_def TimeClip_def)

text \<open>
  C1, as the code has it: with \<open>timeSpeed = 0\<close> an update changes nothing. Otherwise the new instant
  is the old one plus \<open>d * 1000 * timeSpeed\<close> ms, truncated towards zero to the whole
  milliseconds a date holds (an Invalid Date beyond 8.64e15 ms or from an Invalid Date), the
  sun position is recomputed for it and nothing else changes. The advance is exact when
  the product is a whole number of milliseconds; then two updates advance twice, and
  \<open>timeSpeed = 60\<close> with \<open>d = 1\<close> advances by 60000 ms.
\<close>

theorem update_advances:
  "(timeSpeed s = 0 \<longrightarrow> update d s = s)
   \<and> (timeSpeed s \<noteq> 0 \<longrightarrow>
        update d s = updateSunPosition None
          (s\<lparr>currentDate :=
               new_Date (map_option (\<lambda>t. t + d * 1000 * timeSpeed s) (getTime (currentDate s)))\<rparr>)
        \<and> currentDate (update d s)
          = new_Date (map_option (\<lambda>t. t + d * 1000 * timeSpeed s) (getTime (currentDate s)))
        \<and> updateSunPosition None (update d s) = update d s)
   \<and> (timeSpeed s \<noteq> 0 \<and> currentDate s = Some t
        \<and> \<bar>real_of_int t + d * 1000 * timeSpeed s\<bar> \<le> 864 * 10 ^ 13 \<longrightarrow>
        currentDate (update d s)
          = Some (if 0 \<le> real_of_int t + d * 1000 * timeSpeed s
                  then \<lfloor>real_of_int t + d * 1000 * timeSpeed s\<rfloor>
                  else \<lceil>real_of_int t + d * 1000 * timeSpeed s\<rceil>))
   \<and> (timeSpeed s \<noteq> 0 \<and> currentDate s = Some t \<and> d * 1000 * timeSpeed s = real_of_int k
        \<and> \<bar>real_of_int (t + k)\<bar> \<le> 864 * 10 ^ 13 \<longrightarrow>
        currentDate (update d s) = Some (t + k))
   \<and> (timeSpeed s \<noteq> 0 \<and> currentDate s = Some t \<and> d * 1000 * timeSpeed s = real_of_int k
        \<and> \<bar>real_of_int (t + k)\<bar> \<le> 864 * 10 ^ 13
        \<and> \<bar>real_of_int (t + 2 * k)\<bar> \<le> 864 * 10 ^ 13 \<longrightarrow>
        currentDate (update d (update d s)) = Some (t + 2 * k))
   \<and> (timeSpeed s = 60 \<and> currentDate s = Some t
        \<and> \<bar>real_of_int (t + 60000)\<bar> \<le> 864 * 10 ^ 13 \<longrightarrow>
        currentDate (update 1 s) = Some (t + 60000))"
proof (intro conjI impI)
  show "update d s = s" if "timeSpeed s = 0"
    using that by (rule update_paused)
  show "update d s = updateSunPosition None
          (s\<lparr>currentDate :=
               new_Date (map_option (\<lambda>t. t + d * 1000 * timeSpeed s) (getTime (currentDate s)))\<rparr>)"
    if "timeSpeed s \<noteq> 0"
    using that by (simp add: update_def Let_def)
  show "currentDate (update d s)
          = new_Date (map_option (\<lambda>t. t + d * 1000 * timeSpeed s) (getTime (currentDate s)))"
    if "timeSpeed s \<noteq> 0"
    using that by (rule update_currentDate)
  show "updateSunPosition None (update d s) = update d s" if "timeSpeed s \<noteq> 0"
    using that by (rule update_recomputed)
  show "currentDate (update d s)
          = Some (if 0 \<le> real_of_int t + d * 1000 * timeSpeed s
                  then \<lfloor>real_of_int t + d * 1000 * timeSpeed s\<rfloor>
                  else \<lceil>real_of_int t + d * 1000 * timeSpeed s\<rceil>)"
    if "timeSpeed s \<noteq> 0 \<and> currentDate s = Some t
        \<and> \<bar>real_of_int t + d * 1000 * timeSpeed s\<bar> \<le> 864 * 10 ^ 13"
    using that update_truncates [of s t d] by blast
  show "currentDate (update d s) = Some (t + k)"
    if "timeSpeed s \<noteq> 0 \<and> currentDate s = Some t \<and> d * 1000 * timeSpeed s = real_of_int k
        \<and> \<bar>real_of_int (t + k)\<bar> \<le> 864 * 10 ^ 13"
    using that update_whole [of s t d k] by blast
  show "currentDate (update d (update d s)) = Some (t + 2 * k)"
    if "timeSpeed s \<noteq> 0 \<and> currentDate s = Some t \<and> d * 1000 * timeSpeed s = real_of_int k
        \<and> \<bar>real_of_int (t + k)\<bar> \<le> 864 * 10 ^ 13
        \<and> \<bar>real_of_int (t + 2 * k)\<bar> \<le> 864 * 10 ^ 13"
    using that update_twice [of s t d k] by blast
  show "currentDate (update 1 s) = Some (t + 60000)"
    if "timeSpeed s = 60 \<and> currentDate s = Some t
        \<and> \<bar>real_of_int (t + 60000)\<bar> \<le> 864 * 10 ^ 13"
  proof -
    have "timeSpeed s \<noteq> 0" "1 * 1000 * timeSpeed s = real_of_int 60000"
      using that by simp_all
    then show ?thesis
      using that update_whole [of s t 1 60000] by blast
  qed
qed

lemma lighting_example_fields:
  "timeSpeed (setTimeSpeed v (LightingSystem_new n p r q)) = v"
  "currentDate (setTimeSpeed v (LightingSystem_new n p r q)) = Some n"
  by (simp_all add: setTimeSpeed_def LightingSystem_new_def)

theorem update_advances_witness:
  "timeSpeed (setTimeSpeed 60 (LightingSystem_new 1733616000000 0 6371000 149597870700)) = 60
   \<and> currentDate (setTimeSpeed 60 (LightingSystem_new 1733616000000 0 6371000 149597870700))
       = Some 1733616000000
   \<and> currentDate (update 1 (setTimeSpeed 60
        (LightingSystem_new 1733616000000 0 6371000 149597870700))) = Some 1733616060000
   \<and> currentDate (update 1 (update 1 (setTimeSpeed 60
        (LightingSystem_new 1733616000000 0 6371000 149597870700)))) = Some 1733616120000
   \<and> timeSpeed (LightingSystem_new 1733616000000 0 6371000 149597870700) = 0
   \<and> update 5 (LightingSystem_new 1733616000000 0 6371000 149597870700)
       = LightingSystem_new 1733616000000 0 6371000 149597870700"
proof -
  let ?init = "LightingSystem_new 1733616000000 0 6371000 149597870700"
  let ?s = "setTimeSpeed 60 ?init"
  note T = update_advances [of ?s 1 1733616000000 60000]
  have f: "timeSpeed ?s = 60" "currentDate ?s = Some 1733616000000"
    by (rule lighting_example_fields)+
  have n: "timeSpeed ?s \<noteq> 0" "1 * 1000 * timeSpeed ?s = real_of_int 60000"
    "\<bar>real_of_int (1733616000000 + 60000)\<bar> \<le> 864 * 10 ^ 13"
    "\<bar>real_of_int (1733616000000 + 2 * 60000)\<bar> \<le> 864 * 10 ^ 13"
    using f by simp_all
  have "currentDate (update 1 ?s) = Some (1733616000000 + 60000)"
    using T f n by blast
  then have 1: "currentDate (update 1 ?s) = Some 1733616060000"
    by simp
  have "currentDate (update 1 (update 1 ?s)) = Some (1733616000000 + 2 * 60000)"
    using T f n by blast
  then have 2: "currentDate (update 1 (update 1 ?s)) = Some 1733616120000"
    by simp
  have z: "timeSpeed ?init = 0"
    by (simp add: LightingSystem_new_def)
  have 3: "update 5 ?init = ?init"
    using update_advances [of ?init 5] z by blast
  show ?thesis
    using f 1 2 z 3 by blast
qed

theorem update_advances_counterexample:
  "timeSpeed lighting_example = 1
   \<and> currentDate lighting_example = Some 1733616000000
   \<and> (1 / 2048) * 1000 * timeSpeed lighting_example = 125 / 256
   \<and> currentDate (update (1 / 2048) lighting_example) = Some 1733616000000"
proof -
  have f: "timeSpeed lighting_example = 1" "currentDate lighting_example = Some 1733616000000"
    unfolding lighting_example_def by (rule lighting_example_fields)+
  have "currentDate (update (1 / 2048) lighting_example)
      = new_Date (map_option (\<lambda>t. t + (1 / 2048) * 1000 * 1) (Some 1733616000000))"
    using update_currentDate [of lighting_example "1 / 2048"] f by (simp add: getTime_def)
  also have "\<dots> = Some 1733616000000"
    by (simp add: new_Date_def TimeClip_def)
  finally show ?thesis
    using f by simp
qed

subsection \<open>Mode switches and explicit dates\<close>

lemma setSimplifiedMode_twice:
  "setSimplifiedMode b (setSimplifiedMode c s) = updateSunPosition None (s\<lparr>useSimplified := b\<rparr>)"
  by (simp add: setSimplifiedMode_def updateSunPosition_def Let_def)

lemma useSimplified_same: "useSimplified s = b \<Longrightarrow> s\<lparr>useSimplified := b\<rparr> = s"
  by auto

lemma setLocation_fixed: "updateSunPosition None (setLocation lat lng s) = setLocation lat lng s"
  by (simp add: setLocation_def updateSunPosition_idem)

lemma setLocation_full: "useSimplified (setLocation lat lng s) = False"
  by (simp add: setLocation_def updateSunPosition_None_fields)

lemma updateSunPosition_full:
  "useSimplified s = False \<Longrightarrow>
   sun_position (updateSunPosition None s)
     = map_option (\<lambda>t. vscale (getSunDirectionVector t (latitude s) (longitude s)) (sunDistance s))
         (currentDate s)"
  by (simp add: updateSunPosition_def Let_def option.map_comp comp_def)

text \<open>
  C6: from a state in full mode, switching the simplified mode on and off again gives
  the state a plain recomputation gives: latitude and longitude are kept and the sun
  position is the full-model direction for the unchanged date and location. After
  \<open>setLocation\<close> the round trip gives back the very same state.
\<close>

theorem setSimplifiedMode_round_trip:
  "(useSimplified s = False \<longrightarrow>
      setSimplifiedMode False (setSimplifiedMode True s) = updateSunPosition None s
      \<and> latitude (setSimplifiedMode False (setSimplifiedMode True s)) = latitude s
      \<and> longitude (setSimplifiedMode False (setSimplifiedMode True s)) = longitude s
      \<and> currentDate (setSimplifiedMode False (setSimplifiedMode True s)) = currentDate s
      \<and> sun_position (setSimplifiedMode False (setSimplifiedMode True s))
          = map_option
              (\<lambda>t. vscale (getSunDirectionVector t (latitude s) (longitude s)) (sunDistance s))
              (currentDate s))
   \<and> latitude (setSimplifiedMode True s) = latitude s
   \<and> longitude (setSimplifiedMode True s) = longitude s
   \<and> setSimplifiedMode False (setSimplifiedMode True (setLocation lat lng s'))
       = setLocation lat lng s'"
proof (intro conjI impI)
  assume full: "useSimplified s = False"
  show eq: "setSimplifiedMode False (setSimplifiedMode True s) = updateSunPosition None s"
    using useSimplified_same [OF full] by (simp add: setSimplifiedMode_twice)
  show "latitude (setSimplifiedMode False (setSimplifiedMode True s)) = latitude s"
    "longitude (setSimplifiedMode False (setSimplifiedMode True s)) = longitude s"
    "currentDate (setSimplifiedMode False (setSimplifiedMode True s)) = currentDate s"
    unfolding eq by (rule updateSunPosition_None_fields)+
  show "sun_position (setSimplifiedMode False (setSimplifiedMode True s))
          = map_option
              (\<lambda>t. vscale (getSunDirectionVector t (latitude s) (longitude s)) (sunDistance s))
              (currentDate s)"
    unfolding eq using full by (rule updateSunPosition_full)
next
  show "latitude (setSimplifiedMode True s) = latitude s"
    "longitude (setSimplifiedMode True s) = longitude s"
    by (simp_all add: setSimplifiedMode_def updateSunPosition_None_fields)
  show "setSimplifiedMode False (setSimplifiedMode True (setLocation lat lng s'))
       = setLocation lat lng s'"
    using useSimplified_same [OF setLocation_full, of lat lng s']
    by (simp add: setSimplifiedMode_twice setLocation_fixed)
qed

theorem setSimplifiedMode_round_trip_witness:
  "useSimplified (setLocation 40.7128 (- 74.006) lighting_example) = False
   \<and> latitude (setLocation 40.7128 (- 74.006) lighting_example) = 40.7128
   \<and> longitude (setLocation 40.7128 (- 74.006) lighting_example) = - 74.006
   \<and> setSimplifiedMode False (setSimplifiedMode True
        (setLocation 40.7128 (- 74.006) lighting_example))
       = setLocation 40.7128 (- 74.006) lighting_example
   \<and> latitude (setSimplifiedMode False (setSimplifiedMode True
        (setLocation 40.7128 (- 74.006) lighting_example))) = 40.7128
   \<and> longitude (setSimplifiedMode False (setSimplifiedMode True
        (setLocation 40.7128 (- 74.006) lighting_example))) = - 74.006
   \<and> sun_position (setSimplifiedMode False (setSimplifiedMode True
        (setLocation 40.7128 (- 74.006) lighting_example)))
       = Some (vscale (getSunDirectionVector 1733616000000 40.7128 (- 74.006)) 149597870700)"
proof -
  let ?s = "setLocation 40.7128 (- 74.006) lighting_example"
  note T = setSimplifiedMode_round_trip [of ?s "40.7128" "- 74.006" lighting_example]
  have full: "useSimplified ?s = False"
    by (rule setLocation_full)
  have f: "latitude ?s = 40.7128" "longitude ?s = - 74.006"
    "currentDate ?s = Some 1733616000000" "sunDistance ?s = 149597870700"
    by (simp_all add: setLocation_def updateSunPosition_None_fields lighting_example_def
        setTimeSpeed_def LightingSystem_new_def)
  have r: "setSimplifiedMode False (setSimplifiedMode True ?s) = ?s"
    using T by blast
  have "sun_position (setSimplifiedMode False (setSimplifiedMode True ?s))
      = map_option
          (\<lambda>t. vscale (getSunDirectionVector t (latitude ?s) (longitude ?s)) (sunDistance ?s))
          (currentDate ?s)"
    using T full by blast
  then have p: "sun_position (setSimplifiedMode False (setSimplifiedMode True ?s))
      = Some (vscale (getSunDirectionVector 1733616000000 40.7128 (- 74.006)) 149597870700)"
    unfolding f by simp
  show ?thesis
    using full f(1,2) r p by (simp only:)
qed

lemma updateSunPosition_sun:
  "sun_position (updateSunPosition None s)
     = (if useSimplified s
        then map_option (\<lambda>t. vscale (getSimplifiedSunDirection t) (sunDistance s)) (currentDate s)
        else map_option
               (\<lambda>t. vscale (getSunDirectionVector t (latitude s) (longitude s)) (sunDistance s))
               (currentDate s))"
  by (simp add: updateSunPosition_def Let_def option.map_comp comp_def)

lemma updateSunPosition_Some_sun:
  "sun_position (updateSunPosition (Some d) s)
     = (if useSimplified s
        then map_option (\<lambda>t. vscale (getSimplifiedSunDirection t) (sunDistance s)) d
        else map_option
               (\<lambda>t. vscale (getSunDirectionVector t (latitude s) (longitude s)) (sunDistance s))
               d)"
  by (simp add: updateSunPosition_def Let_def option.map_comp comp_def)

lemma midnight_direction:
  assumes "getUTCHours t = 0" "getUTCMinutes t = 0"
  shows "getSimplifiedSunDirection t
    = Vec3 0 (sin (solarDeclination (toDays t))) (- cos (solarDeclination (toDays t)))"
proof -
  define dec where "dec = solarDeclination (toDays t)"
  have "length_vec (Vec3 0 (sin dec) (- cos dec)) = 1"
    by (simp add: length_vec_def dot_def power2_eq_square [symmetric])
  then have "Vector3_normalize (Vec3 0 (sin dec) (- cos dec)) = Vec3 0 (sin dec) (- cos dec)"
    by (simp add: Vector3_normalize_def vscale_def)
  then show ?thesis
    using assms by (simp add: getSimplifiedSunDirection_def Let_def dec_def)
qed

lemma cos_declination_nonneg: "0 \<le> cos (solarDeclination days)"
proof -
  define y where "y = sin (eclipticLongitude (solarMeanAnomaly days)) * sin EARTH_OBLIQUITY"
  have "\<bar>y\<bar> \<le> 1"
    unfolding y_def by (rule declination_argument)
  then have "- 1 \<le> y" "y \<le> 1"
    by auto
  then have "- (pi / 2) \<le> arcsin y" "arcsin y \<le> pi / 2"
    using arcsin_bounded [of y] by blast+
  then have "0 \<le> cos (arcsin y)"
    by (rule cos_ge_zero)
  then show ?thesis
    by (simp add: solarDeclination_def Let_def y_def)
qed

text \<open>
  C10: a date passed to \<open>updateSunPosition\<close> becomes the controller's current date, and
  later time queries and updates start from it; without a date only the sun position
  changes. In both cases the new sun position is the direction of the active model
  (simplified, or full with the stored latitude and longitude) for the current date,
  scaled by the sun distance.
\<close>

theorem updateSunPosition_date:
  "currentDate (updateSunPosition (Some d) s) = d
   \<and> updateSunPosition (Some d) s = updateSunPosition None (s\<lparr>currentDate := d\<rparr>)
   \<and> updateSunPosition (Some d) s
       = s\<lparr>currentDate := d, sun_position := sun_position (updateSunPosition (Some d) s)\<rparr>
   \<and> getTimeInfo (updateSunPosition (Some d) s) = getTimeInfo (s\<lparr>currentDate := d\<rparr>)
   \<and> info_date (getTimeInfo (updateSunPosition (Some d) s)) = d
   \<and> currentDate (update dt (updateSunPosition (Some d) s))
       = (if timeSpeed s = 0 then d
          else new_Date (map_option (\<lambda>t. t + dt * 1000 * timeSpeed s) (getTime d)))
   \<and> updateSunPosition None s = s\<lparr>sun_position := sun_position (updateSunPosition None s)\<rparr>
   \<and> currentDate (updateSunPosition None s) = currentDate s
   \<and> sun_position (updateSunPosition None s)
       = (if useSimplified s
          then map_option (\<lambda>t. vscale (getSimplifiedSunDirection t) (sunDistance s))
                 (currentDate s)
          else map_option
                 (\<lambda>t. vscale (getSunDirectionVector t (latitude s) (longitude s)) (sunDistance s))
                 (currentDate s))
   \<and> sun_position (updateSunPosition (Some d) s)
       = (if useSimplified s
          then map_option (\<lambda>t. vscale (getSimplifiedSunDirection t) (sunDistance s)) d
          else map_option
                 (\<lambda>t. vscale (getSunDirectionVector t (latitude s) (longitude s)) (sunDistance s))
                 d)"
proof -
  have 1: "currentDate (updateSunPosition (Some d) s) = d"
    by (simp add: updateSunPosition_def Let_def)
  have 2: "updateSunPosition (Some d) s = updateSunPosition None (s\<lparr>currentDate := d\<rparr>)"
    by (simp add: updateSunPosition_def Let_def)
  have 3: "updateSunPosition (Some d) s
       = s\<lparr>currentDate := d, sun_position := sun_position (updateSunPosition (Some d) s)\<rparr>"
    by (simp add: updateSunPosition_def Let_def)
  have 4: "getTimeInfo (updateSunPosition (Some d) s) = getTimeInfo (s\<lparr>currentDate := d\<rparr>)"
    by (simp add: getTimeInfo_def 1)
  have 5: "info_date (getTimeInfo (updateSunPosition (Some d) s)) = d"
    by (simp add: getTimeInfo_def 1)
  have ts: "timeSpeed (updateSunPosition (Some d) s) = timeSpeed s"
    by (simp add: updateSunPosition_def Let_def)
  have 6: "currentDate (update dt (updateSunPosition (Some d) s))
       = (if timeSpeed s = 0 then d
          else new_Date (map_option (\<lambda>t. t + dt * 1000 * timeSpeed s) (getTime d)))"
    using update_paused [of "updateSunPosition (Some d) s" dt]
      update_currentDate [of "updateSunPosition (Some d) s" dt]
    by (simp add: ts 1)
  have 7: "updateSunPosition None s = s\<lparr>sun_position := sun_position (updateSunPosition None s)\<rparr>"
    by (simp add: updateSunPosition_def Let_def)
  have 8: "currentDate (updateSunPosition None s) = currentDate s"
    by (simp add: updateSunPosition_def Let_def)
  note 9 = updateSunPosition_sun [of s]
  note 10 = updateSunPosition_Some_sun [of d s]
  show ?thesis
    using 1 2 3 4 5 6 7 8 9 10 by blast
qed

lemma lighting_example_eq:
  "lighting_example =
     \<lparr>planetRadius = 6371000, sunDistance = 149597870700,
      sun_position = Some (Vec3 0 0 149597870700), sun_intensity = 4,
      currentDate = Some 1733616000000, useSimplified = True, latitude = 0, longitude = 0,
      timeSpeed = 1, lastUpdateTime = 0, ambient_intensity = 0.15\<rparr>"
  by (simp add: lighting_example_def setTimeSpeed_def LightingSystem_new_def)

theorem updateSunPosition_date_witness:
  "sun_position lighting_example = Some (Vec3 0 0 149597870700)
   \<and> sun_position (updateSunPosition None lighting_example)
       = Some (vscale (getSimplifiedSunDirection 1733616000000) 149597870700)
   \<and> vz (vscale (getSimplifiedSunDirection 1733616000000) 149597870700) \<le> 0
   \<and> sun_position (updateSunPosition None lighting_example) \<noteq> sun_position lighting_example
   \<and> currentDate (updateSunPosition None lighting_example) = Some 1733616000000
   \<and> currentDate (updateSunPosition (Some (Some 0)) lighting_example) = Some 0
   \<and> sun_position (updateSunPosition (Some (Some 0)) lighting_example)
       = Some (vscale (getSimplifiedSunDirection 0) 149597870700)"
proof -
  let ?t = "1733616000000 :: int"
  let ?p = "vscale (getSimplifiedSunDirection ?t) 149597870700"
  note T = updateSunPosition_date [of "Some 0" lighting_example 0]
  have f: "useSimplified lighting_example" "currentDate lighting_example = Some ?t"
    "sunDistance lighting_example = 149597870700"
    "sun_position lighting_example = Some (Vec3 0 0 149597870700)"
    by (simp_all add: lighting_example_eq)
  have "sun_position (updateSunPosition None lighting_example)
       = (if useSimplified lighting_example
          then map_option
                 (\<lambda>t. vscale (getSimplifiedSunDirection t) (sunDistance lighting_example))
                 (currentDate lighting_example)
          else map_option
                 (\<lambda>t. vscale (getSunDirectionVector t (latitude lighting_example)
                          (longitude lighting_example)) (sunDistance lighting_example))
                 (currentDate lighting_example))"
    using T by blast
  then have 1: "sun_position (updateSunPosition None lighting_example) = Some ?p"
    by (simp add: f)
  have "getUTCHours ?t = 0" "getUTCMinutes ?t = 0"
    by (simp_all add: getUTCHours_def getUTCMinutes_def)
  then have "vz (getSimplifiedSunDirection ?t) = - cos (solarDeclination (toDays ?t))"
    by (simp add: midnight_direction)
  then have 2: "vz ?p \<le> 0"
    using cos_declination_nonneg [of "toDays ?t"] by (simp add: vscale_def)
  have 3: "sun_position (updateSunPosition None lighting_example) \<noteq> sun_position lighting_example"
  proof
    assume "sun_position (updateSunPosition None lighting_example) = sun_position lighting_example"
    then have "?p = Vec3 0 0 149597870700"
      using 1 f(4) by simp
    then have "vz ?p = 149597870700"
      by simp
    then show False
      using 2 by simp
  qed
  have 4: "currentDate (updateSunPosition None lighting_example) = Some ?t"
    using T f(2) by simp
  have 5: "currentDate (updateSunPosition (Some (Some 0)) lighting_example) = Some 0"
    using T by blast
  have "sun_position (updateSunPosition (Some (Some 0)) lighting_example)
       = (if useSimplified lighting_example
          then map_option
                 (\<lambda>t. vscale (getSimplifiedSunDirection t) (sunDistance lighting_example))
                 (Some 0)
          else map_option
                 (\<lambda>t. vscale (getSunDirectionVector t (latitude lighting_example)
                          (longitude lighting_example)) (sunDistance lighting_example))
                 (Some 0))"
    using T by blast
  then have 6: "sun_position (updateSunPosition (Some (Some 0)) lighting_example)
       = Some (vscale (getSimplifiedSunDirection 0) 149597870700)"
    by (simp add: f)
  show ?thesis
    using f(4) 1 2 3 4 5 6 by blast
qed

subsection \<open>Clones and shared uniform objects\<close>

lemma createEarthMaterial_eq:
  "createEarthMaterial textures options h =
     (\<lparr>uniforms = base_uniforms (length h), clone_uniforms = base_uniforms (length h),
       hasOnBeforeRender = True, side = DoubleSide\<rparr>,
      h @ base_values textures options)"
  by (simp add: createEarthMaterial_def alloc_def base_uniforms_def base_values_def)

lemma get_value_base:
  assumes "b + 14 \<le> length h"
  shows "get_value (base_uniforms b) ''dayTexture'' h = Some (h ! b)"
    "get_value (base_uniforms b) ''nightTexture'' h = Some (h ! (b + 1))"
    "get_value (base_uniforms b) ''bumpRoughnessCloudsTexture'' h = Some (h ! (b + 2))"
    "get_value (base_uniforms b) ''imageryTexture'' h = Some (h ! (b + 3))"
    "get_value (base_uniforms b) ''useImagery'' h = Some (h ! (b + 4))"
    "get_value (base_uniforms b) ''sunDirection'' h = Some (h ! (b + 5))"
    "get_value (base_uniforms b) ''atmosphereDayColor'' h = Some (h ! (b + 6))"
    "get_value (base_uniforms b) ''atmosphereTwilightColor'' h = Some (h ! (b + 7))"
    "get_value (base_uniforms b) ''roughnessLow'' h = Some (h ! (b + 8))"
    "get_value (base_uniforms b) ''roughnessHigh'' h = Some (h ! (b + 9))"
  using assms by (simp_all add: get_value_def base_uniforms_def)

lemma map_of_base:
  "map_of (base_uniforms b) ''sunDirection'' = Some (b + 5)"
  "map_of (base_uniforms b) ''atmosphereDayColor'' = Some (b + 6)"
  "map_of (base_uniforms b) ''atmosphereTwilightColor'' = Some (b + 7)"
  "map_of (base_uniforms b) ''roughnessLow'' = Some (b + 8)"
  "map_of (base_uniforms b) ''roughnessHigh'' = Some (b + 9)"
  "map_of (base_uniforms b) ''imageryTexture'' = Some (b + 3)"
  "map_of (base_uniforms b) ''useImagery'' = Some (b + 4)"
  by (simp_all add: base_uniforms_def)

lemma clone_eq:
  assumes "b + 14 \<le> length h" "clone_uniforms m = base_uniforms b"
  shows "clone m h =
    Some (\<lparr>uniforms = clone_layout b (length h), clone_uniforms = base_uniforms b,
            hasOnBeforeRender = False, side = side m\<rparr>,
          h @ [h ! b, h ! (b + 1), h ! (b + 2), Texture None, Number 0,
               h ! (b + 8), h ! (b + 9)])"
  using assms(2) get_value_base [OF assms(1)]
  by (simp add: clone_def map_of_base alloc_def clone_layout_def)

lemma map_of_base_bound: "map_of (base_uniforms b) n = Some p \<Longrightarrow> p < b + 14"
  by (auto simp: base_uniforms_def split: if_splits)

lemma get_value_append:
  assumes "b + 14 \<le> length h"
  shows "get_value (base_uniforms b) n (h @ xs) = get_value (base_uniforms b) n h"
proof (cases "map_of (base_uniforms b) n")
  case None
  then show ?thesis by (simp add: get_value_def)
next
  case (Some p)
  then have "p < length h"
    using map_of_base_bound [of b n p] assms by simp
  then show ?thesis
    using Some by (simp add: get_value_def nth_append)
qed

lemma get_value_clone:
  assumes "b + 14 \<le> length h" "length xs = 7"
  shows "get_value (clone_layout b (length h)) ''dayTexture'' (h @ xs) = Some (xs ! 0)"
    "get_value (clone_layout b (length h)) ''nightTexture'' (h @ xs) = Some (xs ! 1)"
    "get_value (clone_layout b (length h)) ''bumpRoughnessCloudsTexture'' (h @ xs) = Some (xs ! 2)"
    "get_value (clone_layout b (length h)) ''imageryTexture'' (h @ xs) = Some (xs ! 3)"
    "get_value (clone_layout b (length h)) ''useImagery'' (h @ xs) = Some (xs ! 4)"
    "get_value (clone_layout b (length h)) ''sunDirection'' (h @ xs) = Some (h ! (b + 5))"
    "get_value (clone_layout b (length h)) ''atmosphereDayColor'' (h @ xs) = Some (h ! (b + 6))"
    "get_value (clone_layout b (length h)) ''atmosphereTwilightColor'' (h @ xs) = Some (h ! (b + 7))"
    "get_value (clone_layout b (length h)) ''roughnessLow'' (h @ xs) = Some (xs ! 5)"
    "get_value (clone_layout b (length h)) ''roughnessHigh'' (h @ xs) = Some (xs ! 6)"
  using assms by (simp_all add: get_value_def clone_layout_def nth_append)

lemma map_of_clone:
  "map_of (clone_layout b c) ''sunDirection'' = Some (b + 5)"
  "map_of (clone_layout b c) ''atmosphereDayColor'' = Some (b + 6)"
  "map_of (clone_layout b c) ''atmosphereTwilightColor'' = Some (b + 7)"
  "map_of (clone_layout b c) ''roughnessLow'' = Some (c + 5)"
  "map_of (clone_layout b c) ''roughnessHigh'' = Some (c + 6)"
  "map_of (clone_layout b c) ''imageryTexture'' = Some (c + 3)"
  "map_of (clone_layout b c) ''useImagery'' = Some (c + 4)"
  by (simp_all add: clone_layout_def)

lemma get_set_value:
  assumes "map_of u n = Some p" "map_of w k = Some q" "p < length h"
  shows "set_value u n v h = Some (h[p := v])"
    "get_value w k (h[p := v]) = (if q = p then Some v else get_value w k h)"
  using assms by (auto simp: set_value_def get_value_def)

lemma shared_after_write:
  assumes b: "b + 14 \<le> length h" and xs: "length xs = 7"
    and n: "(n, p) \<in> {(''sunDirection'', b + 5), (''atmosphereDayColor'', b + 6),
                  (''atmosphereTwilightColor'', b + 7)}"
  shows "set_value (base_uniforms b) n v (h @ xs) = Some ((h @ xs)[p := v])"
    "get_value (clone_layout b (length h)) n ((h @ xs)[p := v]) = Some v"
    "get_value (base_uniforms b) n ((h @ xs)[p := v]) = Some v"
proof -
  have mb: "map_of (base_uniforms b) n = Some p" and mc: "map_of (clone_layout b (length h)) n = Some p"
    using n by (auto simp: map_of_base map_of_clone)
  have p: "p < length (h @ xs)"
    using n b by auto
  show "set_value (base_uniforms b) n v (h @ xs) = Some ((h @ xs)[p := v])"
    using mb p by (simp add: set_value_def)
  show "get_value (clone_layout b (length h)) n ((h @ xs)[p := v]) = Some v"
    using mc p by (simp add: get_value_def)
  show "get_value (base_uniforms b) n ((h @ xs)[p := v]) = Some v"
    using mb p by (simp add: get_value_def)
qed

lemma own_after_write:
  assumes b: "b + 14 \<le> length h" and xs: "length xs = 7"
    and n: "(n, p) \<in> {(''roughnessLow'', b + 8), (''roughnessHigh'', b + 9)}"
  shows "set_value (base_uniforms b) n v (h @ xs) = Some ((h @ xs)[p := v])"
    "get_value (clone_layout b (length h)) n ((h @ xs)[p := v])
      = get_value (clone_layout b (length h)) n (h @ xs)"
    "get_value (base_uniforms b) n ((h @ xs)[p := v]) = Some v"
proof -
  obtain q where mb: "map_of (base_uniforms b) n = Some p"
    and mc: "map_of (clone_layout b (length h)) n = Some q" and q: "length h \<le> q" "q < length h + 7"
    using n by (auto simp: map_of_base map_of_clone)
  have p: "p < length (h @ xs)" "p \<noteq> q"
    using n b q by auto
  show "set_value (base_uniforms b) n v (h @ xs) = Some ((h @ xs)[p := v])"
    using mb p by (simp add: set_value_def)
  show "get_value (clone_layout b (length h)) n ((h @ xs)[p := v])
      = get_value (clone_layout b (length h)) n (h @ xs)"
    using mc p q xs by (simp add: get_value_def)
  show "get_value (base_uniforms b) n ((h @ xs)[p := v]) = Some v"
    using mb p by (simp add: get_value_def)
qed

lemma set_map_clone:
  assumes b: "b + 14 \<le> length h" and xs: "length xs = 7"
    and c: "uniforms c = clone_layout b (length h)" and m: "uniforms m = base_uniforms b"
  shows "\<exists>h3. set_map c t (h @ xs) = Some h3 \<and> get_map c h3 = Some (Texture t)
      \<and> get_map m h3 = get_map m (h @ xs)"
proof -
  let ?h3 = "(h @ xs)[length h + 3 := Texture t,
      length h + 4 := Number (case t of Some x \<Rightarrow> 1 | None \<Rightarrow> 0)]"
  have "set_map c t (h @ xs) = Some ?h3"
    using xs by (simp add: set_map_def set_value_def c map_of_clone)
  moreover have "get_map c ?h3 = Some (Texture t)"
    using xs by (simp add: get_map_def get_value_def c map_of_clone)
  moreover have "get_map m ?h3 = get_map m (h @ xs)"
    using b xs by (simp add: get_map_def get_value_def m map_of_base)
  ultimately show ?thesis
    by blast
qed

lemma set_map_base:
  assumes b: "b + 14 \<le> length h" and xs: "length xs = 7"
    and c: "uniforms c = clone_layout b (length h)" and m: "uniforms m = base_uniforms b"
  shows "\<exists>h3. set_map m t (h @ xs) = Some h3 \<and> get_map m h3 = Some (Texture t)
      \<and> get_map c h3 = get_map c (h @ xs)"
proof -
  let ?h3 = "(h @ xs)[b + 3 := Texture t,
      b + 4 := Number (case t of Some x \<Rightarrow> 1 | None \<Rightarrow> 0)]"
  have "set_map m t (h @ xs) = Some ?h3"
    using b xs by (simp add: set_map_def set_value_def m map_of_base)
  moreover have "get_map m ?h3 = Some (Texture t)"
    using b xs by (simp add: get_map_def get_value_def m map_of_base)
  moreover have "get_map c ?h3 = get_map c (h @ xs)"
    using b xs by (simp add: get_map_def get_value_def c map_of_clone)
  ultimately show ?thesis
    by blast
qed

lemma map_of_base_textures:
  "map_of (base_uniforms b) ''dayTexture'' = Some b"
  "map_of (base_uniforms b) ''nightTexture'' = Some (b + 1)"
  "map_of (base_uniforms b) ''bumpRoughnessCloudsTexture'' = Some (b + 2)"
  by (simp_all add: base_uniforms_def)

lemma map_of_clone_textures:
  "map_of (clone_layout b c) ''dayTexture'' = Some c"
  "map_of (clone_layout b c) ''nightTexture'' = Some (c + 1)"
  "map_of (clone_layout b c) ''bumpRoughnessCloudsTexture'' = Some (c + 2)"
  by (simp_all add: clone_layout_def)

lemma texture_after_write:
  assumes b: "b + 14 \<le> length h" and xs: "length xs = 7"
    and n: "(n, p) \<in> {(''dayTexture'', b), (''nightTexture'', b + 1),
                  (''bumpRoughnessCloudsTexture'', b + 2)}"
  shows "set_value (base_uniforms b) n v (h @ xs) = Some ((h @ xs)[p := v])"
    "get_value (clone_layout b (length h)) n ((h @ xs)[p := v])
      = get_value (clone_layout b (length h)) n (h @ xs)"
    "get_value (base_uniforms b) n ((h @ xs)[p := v]) = Some v"
proof -
  obtain q where mb: "map_of (base_uniforms b) n = Some p"
    and mc: "map_of (clone_layout b (length h)) n = Some q" and q: "length h \<le> q" "q < length h + 7"
    using n by (auto simp: map_of_base_textures map_of_clone_textures)
  have p: "p < length (h @ xs)" "p \<noteq> q"
    using n b q by auto
  show "set_value (base_uniforms b) n v (h @ xs) = Some ((h @ xs)[p := v])"
    using mb p by (simp add: set_value_def)
  show "get_value (clone_layout b (length h)) n ((h @ xs)[p := v])
      = get_value (clone_layout b (length h)) n (h @ xs)"
    using mc p q xs by (simp add: get_value_def)
  show "get_value (base_uniforms b) n ((h @ xs)[p := v]) = Some v"
    using mb p by (simp add: get_value_def)
qed

lemma shared_exactly:
  assumes "b + 14 \<le> c"
  shows "(map_of (clone_layout b c) n \<noteq> None
          \<and> map_of (clone_layout b c) n = map_of (base_uniforms b) n)
         = (n \<in> {''sunDirection'', ''atmosphereDayColor'', ''atmosphereTwilightColor''})"
  using assms by (auto simp: clone_layout_def base_uniforms_def split: if_splits)

text \<open>
  C7, as the code has it: the clone of a material made by \<open>createEarthMaterial\<close> holds the very
  uniform objects of the base for the sun direction and the two atmosphere colours, so
  what the base writes there (its \<open>onBeforeRender\<close> hook, a change of a colour) is what
  the clone reads, and these three are the only objects the two hold in common. The three
  textures and the two roughness values are copied into objects of the clone's own: equal
  when the clone is made, and unaffected by a later assignment through the base. The clone's imagery slot is its own and starts empty with
  \<open>useImagery = 0\<close>; setting the map of one material leaves the other's map alone.
\<close>

theorem clone_sharing:
  "createEarthMaterial textures options h0 = (m, h1) \<and> length h1 \<le> length h \<longrightarrow>
   (\<exists>c h2. clone m h = Some (c, h2)
      \<and> map_of (uniforms c) ''sunDirection'' = map_of (uniforms m) ''sunDirection''
      \<and> map_of (uniforms c) ''atmosphereDayColor'' = map_of (uniforms m) ''atmosphereDayColor''
      \<and> map_of (uniforms c) ''atmosphereTwilightColor''
          = map_of (uniforms m) ''atmosphereTwilightColor''
      \<and> map_of (uniforms m) ''sunDirection'' \<noteq> None
      \<and> map_of (uniforms m) ''atmosphereDayColor'' \<noteq> None
      \<and> map_of (uniforms m) ''atmosphereTwilightColor'' \<noteq> None
      \<and> get_value (uniforms c) ''dayTexture'' h2 = get_value (uniforms m) ''dayTexture'' h
      \<and> get_value (uniforms c) ''nightTexture'' h2 = get_value (uniforms m) ''nightTexture'' h
      \<and> get_value (uniforms c) ''bumpRoughnessCloudsTexture'' h2
          = get_value (uniforms m) ''bumpRoughnessCloudsTexture'' h
      \<and> get_value (uniforms c) ''roughnessLow'' h2 = get_value (uniforms m) ''roughnessLow'' h
      \<and> get_value (uniforms c) ''roughnessHigh'' h2 = get_value (uniforms m) ''roughnessHigh'' h
      \<and> get_value (uniforms c) ''imageryTexture'' h2 = Some (Texture None)
      \<and> get_value (uniforms c) ''useImagery'' h2 = Some (Number 0)
      \<and> (\<forall>n. get_value (uniforms m) n h2 = get_value (uniforms m) n h)
      \<and> (\<forall>p. \<exists>h3. onBeforeRender m p h2 = Some h3
            \<and> get_value (uniforms m) ''sunDirection'' h3 = Some (Vector (Vector3_normalize p))
            \<and> get_value (uniforms c) ''sunDirection'' h3 = Some (Vector (Vector3_normalize p)))
      \<and> (\<forall>v. \<exists>h3. set_value (uniforms m) ''atmosphereDayColor'' v h2 = Some h3
            \<and> get_value (uniforms c) ''atmosphereDayColor'' h3 = Some v)
      \<and> (\<forall>v. \<exists>h3. set_value (uniforms m) ''atmosphereTwilightColor'' v h2 = Some h3
            \<and> get_value (uniforms c) ''atmosphereTwilightColor'' h3 = Some v)
      \<and> (\<forall>v. \<exists>h3. set_value (uniforms m) ''roughnessLow'' v h2 = Some h3
            \<and> get_value (uniforms m) ''roughnessLow'' h3 = Some v
            \<and> get_value (uniforms c) ''roughnessLow'' h3 = get_value (uniforms c) ''roughnessLow'' h2)
      \<and> (\<forall>v. \<exists>h3. set_value (uniforms m) ''roughnessHigh'' v h2 = Some h3
            \<and> get_value (uniforms m) ''roughnessHigh'' h3 = Some v
            \<and> get_value (uniforms c) ''roughnessHigh'' h3 = get_value (uniforms c) ''roughnessHigh'' h2)
      \<and> (\<forall>t. \<exists>h3. set_map c t h2 = Some h3 \<and> get_map c h3 = Some (Texture t)
            \<and> get_map m h3 = get_map m h2)
      \<and> (\<forall>t. \<exists>h3. set_map m t h2 = Some h3 \<and> get_map m h3 = Some (Texture t)
            \<and> get_map c h3 = get_map c h2)
      \<and> (\<forall>n. (map_of (uniforms c) n \<noteq> None \<and> map_of (uniforms c) n = map_of (uniforms m) n)
            = (n \<in> {''sunDirection'', ''atmosphereDayColor'', ''atmosphereTwilightColor''}))
      \<and> (\<forall>v. \<exists>h3. set_value (uniforms m) ''dayTexture'' v h2 = Some h3
            \<and> get_value (uniforms m) ''dayTexture'' h3 = Some v
            \<and> get_value (uniforms c) ''dayTexture'' h3 = get_value (uniforms c) ''dayTexture'' h2)
      \<and> (\<forall>v. \<exists>h3. set_value (uniforms m) ''nightTexture'' v h2 = Some h3
            \<and> get_value (uniforms m) ''nightTexture'' h3 = Some v
            \<and> get_value (uniforms c) ''nightTexture'' h3 = get_value (uniforms c) ''nightTexture'' h2)
      \<and> (\<forall>v. \<exists>h3. set_value (uniforms m) ''bumpRoughnessCloudsTexture'' v h2 = Some h3
            \<and> get_value (uniforms m) ''bumpRoughnessCloudsTexture'' h3 = Some v
            \<and> get_value (uniforms c) ''bumpRoughnessCloudsTexture'' h3
                = get_value (uniforms c) ''bumpRoughnessCloudsTexture'' h2))"
  (is "?created \<longrightarrow> ?shared")
proof
  assume a: ?created
  define b where "b = length h0"
  define xs where "xs = [h ! b, h ! (b + 1), h ! (b + 2), Texture None, Number 0,
               h ! (b + 8), h ! (b + 9)]"
  define c where "c = \<lparr>uniforms = clone_layout b (length h), clone_uniforms = base_uniforms b,
            hasOnBeforeRender = False, side = side m\<rparr>"
  have m: "uniforms m = base_uniforms b" "clone_uniforms m = base_uniforms b"
    "hasOnBeforeRender m"
    and h1: "h1 = h0 @ base_values textures options"
    using a by (auto simp: createEarthMaterial_eq b_def)
  have b: "b + 14 \<le> length h"
    using a h1 by (simp add: b_def base_values_def)
  have xs: "length xs = 7"
    by (simp add: xs_def)
  have uc: "uniforms c = clone_layout b (length h)"
    by (simp add: c_def)
  have cl: "clone m h = Some (c, h @ xs)"
    using clone_eq [OF b m(2)] by (simp add: c_def xs_def)
  note gb = get_value_base [OF b]
  note gc = get_value_clone [OF b xs]
  have sun: "\<exists>h3. onBeforeRender m p (h @ xs) = Some h3
      \<and> get_value (uniforms m) ''sunDirection'' h3 = Some (Vector (Vector3_normalize p))
      \<and> get_value (uniforms c) ''sunDirection'' h3 = Some (Vector (Vector3_normalize p))" for p
    using shared_after_write [OF b xs, of "''sunDirection''" "b + 5" "Vector (Vector3_normalize p)"]
    by (simp add: onBeforeRender_def m uc)
  have day: "\<exists>h3. set_value (uniforms m) ''atmosphereDayColor'' v (h @ xs) = Some h3
      \<and> get_value (uniforms c) ''atmosphereDayColor'' h3 = Some v" for v
    using shared_after_write [OF b xs, of "''atmosphereDayColor''" "b + 6" v]
    by (simp add: m uc)
  have twi: "\<exists>h3. set_value (uniforms m) ''atmosphereTwilightColor'' v (h @ xs) = Some h3
      \<and> get_value (uniforms c) ''atmosphereTwilightColor'' h3 = Some v" for v
    using shared_after_write [OF b xs, of "''atmosphereTwilightColor''" "b + 7" v]
    by (simp add: m uc)
  have rlo: "\<exists>h3. set_value (uniforms m) ''roughnessLow'' v (h @ xs) = Some h3
      \<and> get_value (uniforms m) ''roughnessLow'' h3 = Some v
      \<and> get_value (uniforms c) ''roughnessLow'' h3
          = get_value (uniforms c) ''roughnessLow'' (h @ xs)" for v
    using own_after_write [OF b xs, of "''roughnessLow''" "b + 8" v]
    by (simp add: m uc)
  have rhi: "\<exists>h3. set_value (uniforms m) ''roughnessHigh'' v (h @ xs) = Some h3
      \<and> get_value (uniforms m) ''roughnessHigh'' h3 = Some v
      \<and> get_value (uniforms c) ''roughnessHigh'' h3
          = get_value (uniforms c) ''roughnessHigh'' (h @ xs)" for v
    using own_after_write [OF b xs, of "''roughnessHigh''" "b + 9" v]
    by (simp add: m uc)
  have vals: "get_value (uniforms c) ''dayTexture'' (h @ xs) = get_value (uniforms m) ''dayTexture'' h"
    "get_value (uniforms c) ''nightTexture'' (h @ xs) = get_value (uniforms m) ''nightTexture'' h"
    "get_value (uniforms c) ''bumpRoughnessCloudsTexture'' (h @ xs)
      = get_value (uniforms m) ''bumpRoughnessCloudsTexture'' h"
    "get_value (uniforms c) ''roughnessLow'' (h @ xs) = get_value (uniforms m) ''roughnessLow'' h"
    "get_value (uniforms c) ''roughnessHigh'' (h @ xs) = get_value (uniforms m) ''roughnessHigh'' h"
    "get_value (uniforms c) ''imageryTexture'' (h @ xs) = Some (Texture None)"
    "get_value (uniforms c) ''useImagery'' (h @ xs) = Some (Number 0)"
    by (simp_all add: uc m gb gc) (simp_all add: xs_def)
  have addr: "map_of (uniforms c) ''sunDirection'' = map_of (uniforms m) ''sunDirection''"
    "map_of (uniforms c) ''atmosphereDayColor'' = map_of (uniforms m) ''atmosphereDayColor''"
    "map_of (uniforms c) ''atmosphereTwilightColor''
      = map_of (uniforms m) ''atmosphereTwilightColor''"
    "map_of (uniforms m) ''sunDirection'' \<noteq> None"
    "map_of (uniforms m) ''atmosphereDayColor'' \<noteq> None"
    "map_of (uniforms m) ''atmosphereTwilightColor'' \<noteq> None"
    by (simp_all add: uc m map_of_base map_of_clone)
  have frame: "\<forall>n. get_value (uniforms m) n (h @ xs) = get_value (uniforms m) n h"
    by (simp add: m get_value_append [OF b])
  have map1: "\<forall>t. \<exists>h3. set_map c t (h @ xs) = Some h3 \<and> get_map c h3 = Some (Texture t)
      \<and> get_map m h3 = get_map m (h @ xs)"
    using set_map_clone [OF b xs uc m(1)] by blast
  have map2: "\<forall>t. \<exists>h3. set_map m t (h @ xs) = Some h3 \<and> get_map m h3 = Some (Texture t)
      \<and> get_map c h3 = get_map c (h @ xs)"
    using set_map_base [OF b xs uc m(1)] by blast
  have exact: "\<forall>n. (map_of (uniforms c) n \<noteq> None \<and> map_of (uniforms c) n = map_of (uniforms m) n)
      = (n \<in> {''sunDirection'', ''atmosphereDayColor'', ''atmosphereTwilightColor''})"
    using shared_exactly [OF b] by (simp add: uc m)
  have tday: "\<exists>h3. set_value (uniforms m) ''dayTexture'' v (h @ xs) = Some h3
      \<and> get_value (uniforms m) ''dayTexture'' h3 = Some v
      \<and> get_value (uniforms c) ''dayTexture'' h3
          = get_value (uniforms c) ''dayTexture'' (h @ xs)" for v
    using texture_after_write [OF b xs, of "''dayTexture''" b v]
    by (simp add: m uc)
  have tnight: "\<exists>h3. set_value (uniforms m) ''nightTexture'' v (h @ xs) = Some h3
      \<and> get_value (uniforms m) ''nightTexture'' h3 = Some v
      \<and> get_value (uniforms c) ''nightTexture'' h3
          = get_value (uniforms c) ''nightTexture'' (h @ xs)" for v
    using texture_after_write [OF b xs, of "''nightTexture''" "b + 1" v]
    by (simp add: m uc)
  have tbump: "\<exists>h3. set_value (uniforms m) ''bumpRoughnessCloudsTexture'' v (h @ xs) = Some h3
      \<and> get_value (uniforms m) ''bumpRoughnessCloudsTexture'' h3 = Some v
      \<and> get_value (uniforms c) ''bumpRoughnessCloudsTexture'' h3
          = get_value (uniforms c) ''bumpRoughnessCloudsTexture'' (h @ xs)" for v
    using texture_after_write [OF b xs, of "''bumpRoughnessCloudsTexture''" "b + 2" v]
    by (simp add: m uc)
  show ?shared
    apply (rule exI [of _ c])
    apply (rule exI [of _ "h @ xs"])
    apply (intro conjI allI)
    apply (rule cl addr vals frame [rule_format] sun day twi rlo rhi map1 [rule_format]
        map2 [rule_format] exact [rule_format] tday tnight tbump)+
    done
qed

lemma material_example_eq:
  "material_example =
     (\<lparr>uniforms = base_uniforms 0, clone_uniforms = base_uniforms 0,
       hasOnBeforeRender = True, side = DoubleSide\<rparr>,
      [Texture (Some 1), Texture (Some 2), Texture (Some 3), Texture None, Number 0,
       Vector (Vec3 0 0 0), Vector (Vec3 (77 / 255) (178 / 255) 1),
       Vector (Vec3 (188 / 255) (73 / 255) (11 / 255)),
       Number 0.25, Number 0.35, Number 1.04, Number 0.85, Number 900000, Number 0.85])"
  by (simp add: material_example_def createEarthMaterial_eq base_values_def default_def)

lemma example_length: "length (snd material_example) = 14"
  by (simp add: material_example_eq)

lemma clone_example:
  "clone (fst material_example) (snd material_example) =
     Some (\<lparr>uniforms = clone_layout 0 14, clone_uniforms = base_uniforms 0,
             hasOnBeforeRender = False, side = DoubleSide\<rparr>,
           snd material_example @
             [Texture (Some 1), Texture (Some 2), Texture (Some 3), Texture None, Number 0,
              Number 0.25, Number 0.35])"
proof -
  have "0 + 14 \<le> length (snd material_example)"
    by (simp add: example_length)
  moreover have "clone_uniforms (fst material_example) = base_uniforms 0"
    by (simp add: material_example_eq)
  ultimately show ?thesis
    using clone_eq [of 0 "snd material_example" "fst material_example"]
    unfolding example_length by (simp add: material_example_eq)
qed

theorem clone_sharing_witness:
  "length (snd material_example) \<le> length (snd material_example)
   \<and> (do {
        (c, h2) \<leftarrow> clone (fst material_example) (snd material_example);
        h3 \<leftarrow> onBeforeRender (fst material_example) (Vec3 0 0 149597870700) h2;
        Some (get_value (uniforms c) ''sunDirection'' h3,
              get_value (uniforms c) ''imageryTexture'' h2,
              get_value (uniforms c) ''useImagery'' h2)
      }) = Some (Some (Vector (Vec3 0 0 1)), Some (Texture None), Some (Number 0))"
proof -
  let ?m = "fst material_example"
  let ?h = "snd material_example"
  have "createEarthMaterial \<lparr>day = Some 1, night = Some 2, bumpRoughnessClouds = Some 3\<rparr>
       \<lparr>opt_dayColor = Vec3 (77 / 255) (178 / 255) 1,
        opt_twilightColor = Vec3 (188 / 255) (73 / 255) (11 / 255),
        opt_roughnessLow = None, opt_roughnessHigh = None, opt_atmosphereScale = None,
        opt_hazeStrength = None, opt_hazeFalloff = None, opt_hazeMax = None\<rparr> [] = (?m, ?h)
      \<and> length ?h \<le> length ?h"
    by (simp add: material_example_def)
  note T = clone_sharing [of _ _ "[]" ?m ?h ?h, THEN mp, OF this]
  from T obtain c h2 where cl: "clone ?m ?h = Some (c, h2)"
    and im: "get_value (uniforms c) ''imageryTexture'' h2 = Some (Texture None)"
      "get_value (uniforms c) ''useImagery'' h2 = Some (Number 0)"
    and sun: "\<forall>p. \<exists>h3. onBeforeRender ?m p h2 = Some h3
            \<and> get_value (uniforms ?m) ''sunDirection'' h3 = Some (Vector (Vector3_normalize p))
            \<and> get_value (uniforms c) ''sunDirection'' h3 = Some (Vector (Vector3_normalize p))"
    by (elim exE conjE) (rule that; assumption)
  obtain h3 where h3: "onBeforeRender ?m (Vec3 0 0 149597870700) h2 = Some h3"
    "get_value (uniforms c) ''sunDirection'' h3
      = Some (Vector (Vector3_normalize (Vec3 0 0 149597870700)))"
    using sun by blast
  have n: "Vector3_normalize (Vec3 0 0 149597870700) = Vec3 0 0 1"
    by (simp add: Vector3_normalize_def length_vec_axis vscale_def)
  show ?thesis
    using cl h3 n im by simp
qed

theorem clone_sharing_counterexample:
  "(do {
      (c, h2) \<leftarrow> clone (fst material_example) (snd material_example);
      h3 \<leftarrow> set_value (uniforms (fst material_example)) ''roughnessLow'' (Number 0.9) h2;
      Some (get_value (uniforms (fst material_example)) ''roughnessLow'' h3,
            get_value (uniforms c) ''roughnessLow'' h3,
            map_of (uniforms (fst material_example)) ''roughnessLow'',
            map_of (uniforms c) ''roughnessLow'')
    }) = Some (Some (Number 0.9), Some (Number 0.25), Some 8, Some 19)"
  unfolding clone_example
  by (simp add: material_example_eq map_of_base map_of_clone set_value_def get_value_def)

end
